theory Spec2Isabelle
  imports Main "HOL-Library.Word" "HOL-Library.Signed_Division"
begin

unbundle bit_operations_syntax

text \<open>
  A model of the TOTP generator of \<^verbatim>\<open>main.go\<close> (RFC 6238 over RFC 4226): the secret
  is decoded from base-32, the Unix time divided by 30 is encoded in 8 bytes, the HMAC of
  those bytes under the secret is truncated to a 31-bit integer, and the integer modulo
  a power of ten is printed. The graphical front end is not modelled.
\<close>

section \<open>Machine types\<close>

text \<open>
  The program is Go. A \<^verbatim>\<open>byte\<close> is an 8-bit word, \<^verbatim>\<open>uint32\<close> and
  \<^verbatim>\<open>uint64\<close> are 32- and 64-bit words, \<^verbatim>\<open>int64\<close> is a 64-bit word read in two's
  complement, and \<^verbatim>\<open>int\<close> is taken to be 64 bits wide (the amd64 and arm64 targets).
  Arithmetic on words wraps around, as Go's does.
\<close>

type_synonym byte = "8 word"
type_synonym uint32 = "32 word"
type_synonym uint64 = "64 word"
type_synonym int64 = "64 word"
type_synonym go_int = "64 word"

text \<open>
  A Go function either returns or aborts with a run-time panic. The two panics this
  program can raise are an index out of range and an integer division by zero; the only
  \<^verbatim>\<open>error\<close> value it can return is the \<^verbatim>\<open>CorruptInputError\<close> of
  \<^verbatim>\<open>encoding/base32\<close>, which carries the offset of the offending input byte.
\<close>

datatype runtime_error = IndexOutOfRange | DivideByZero

datatype 'a go_result = Panics runtime_error | Returns 'a

datatype go_error = CorruptInputError int

section \<open>The hash primitives of the standard library\<close>

text \<open>
  The hashes, the HMAC and the base-32 decoder are packages of Go's standard library
  that \<^verbatim>\<open>main.go\<close> imports; the repository does not contain them. They are written
  down here as the library computes them: FIPS 180-4 in the shape of the generic block
  functions of \<^verbatim>\<open>crypto/sha1\<close>, \<^verbatim>\<open>crypto/sha256\<close> and \<^verbatim>\<open>crypto/sha512\<close>,
  RFC 2104 as \<^verbatim>\<open>crypto/hmac\<close> implements it, and the decoding loop of
  \<^verbatim>\<open>encoding/base32\<close>. The digests evaluated further down agree with the published
  test vectors.

  \<^verbatim>\<open>generateTOTP\<close> receives its hash as a \<^verbatim>\<open>func() hash.Hash\<close>. What the program
  uses of a \<^verbatim>\<open>hash.Hash\<close> is its digest size, its block size and the digest of the
  bytes written to it.
\<close>

record hash_Hash =
  hash_Size :: nat
  hash_BlockSize :: nat
  hash_Sum :: "byte list \<Rightarrow> byte list"

definition BEUint32 :: "byte list \<Rightarrow> uint32" where
  "BEUint32 b = push_bit 24 (ucast (b ! 0)) OR push_bit 16 (ucast (b ! 1))
                OR push_bit 8 (ucast (b ! 2)) OR ucast (b ! 3)"

definition BEUint64 :: "byte list \<Rightarrow> uint64" where
  "BEUint64 b = push_bit 56 (ucast (b ! 0)) OR push_bit 48 (ucast (b ! 1))
                OR push_bit 40 (ucast (b ! 2)) OR push_bit 32 (ucast (b ! 3))
                OR push_bit 24 (ucast (b ! 4)) OR push_bit 16 (ucast (b ! 5))
                OR push_bit 8 (ucast (b ! 6)) OR ucast (b ! 7)"

definition BEPutUint32 :: "uint32 \<Rightarrow> byte list" where
  "BEPutUint32 v = [ucast (drop_bit 24 v), ucast (drop_bit 16 v), ucast (drop_bit 8 v), ucast v]"

definition BEPutUint64 :: "uint64 \<Rightarrow> byte list" where
  "BEPutUint64 v =
     [ucast (drop_bit 56 v), ucast (drop_bit 48 v), ucast (drop_bit 40 v), ucast (drop_bit 32 v),
      ucast (drop_bit 24 v), ucast (drop_bit 16 v), ucast (drop_bit 8 v), ucast v]"

definition RotateLeft32 :: "uint32 \<Rightarrow> nat \<Rightarrow> uint32" where
  "RotateLeft32 x k = push_bit k x OR drop_bit (32 - k) x"

definition RotateRight32 :: "uint32 \<Rightarrow> nat \<Rightarrow> uint32" where
  "RotateRight32 x k = drop_bit k x OR push_bit (32 - k) x"

definition RotateRight64 :: "uint64 \<Rightarrow> nat \<Rightarrow> uint64" where
  "RotateRight64 x k = drop_bit k x OR push_bit (64 - k) x"

fun block_words32 :: "byte list \<Rightarrow> uint32 list" where
  "block_words32 (b0 # b1 # b2 # b3 # p) = BEUint32 [b0, b1, b2, b3] # block_words32 p"
| "block_words32 p = []"

fun block_words64 :: "byte list \<Rightarrow> uint64 list" where
  "block_words64 (b0 # b1 # b2 # b3 # b4 # b5 # b6 # b7 # p) =
     BEUint64 [b0, b1, b2, b3, b4, b5, b6, b7] # block_words64 p"
| "block_words64 p = []"

subsection \<open>SHA-1 (crypto/sha1)\<close>

text \<open>
  The message is followed by the byte 0x80, zero bytes up to 56 modulo 64, and the
  length in bits as 8 big-endian bytes. Each 64-byte block is read as sixteen
  big-endian words kept in a circular buffer, which the 80 rounds extend in place.
\<close>

definition sha1_padding :: "nat \<Rightarrow> byte list" where
  "sha1_padding len =
     0x80 # replicate ((if len mod 64 < 56 then 56 - len mod 64 else 64 + 56 - len mod 64) - 1) 0
       @ BEPutUint64 (push_bit 3 (of_nat len))"

type_synonym sha1_state = "uint32 \<times> uint32 \<times> uint32 \<times> uint32 \<times> uint32"

definition sha1_init :: sha1_state where
  "sha1_init = (0x67452301, 0xEFCDAB89, 0x98BADCFE, 0x10325476, 0xC3D2E1F0)"

definition sha1_f :: "nat \<Rightarrow> uint32 \<Rightarrow> uint32 \<Rightarrow> uint32 \<Rightarrow> uint32" where
  "sha1_f i b c d =
     (if i < 20 then (b AND c) OR (NOT b AND d)
      else if i < 40 then b XOR c XOR d
      else if i < 60 then ((b OR c) AND d) OR (b AND c)
      else b XOR c XOR d)"

definition sha1_K :: "nat \<Rightarrow> uint32" where
  "sha1_K i =
     (if i < 20 then 0x5A827999 else if i < 40 then 0x6ED9EBA1
      else if i < 60 then 0x8F1BBCDC else 0xCA62C1D6)"

definition sha1_w :: "nat \<Rightarrow> uint32 list \<Rightarrow> uint32 list" where
  "sha1_w i w =
     (if i < 16 then w
      else w[i mod 16 :=
             RotateLeft32 (w ! ((i - 3) mod 16) XOR w ! ((i - 8) mod 16)
                           XOR w ! ((i - 14) mod 16) XOR w ! (i mod 16)) 1])"

fun sha1_round :: "nat \<Rightarrow> uint32 list \<Rightarrow> sha1_state \<Rightarrow> uint32 list \<times> sha1_state" where
  "sha1_round i w (a, b, c, d, e) =
     (w, RotateLeft32 a 5 + sha1_f i b c d + e + w ! (i mod 16) + sha1_K i,
         a, RotateLeft32 b 30, c, d)"

function sha1_rounds :: "nat \<Rightarrow> uint32 list \<times> sha1_state \<Rightarrow> sha1_state" where
  "sha1_rounds i ws =
     (if i < 80 then sha1_rounds (i + 1) (sha1_round i (sha1_w i (fst ws)) (snd ws))
      else snd ws)"
  by pat_completeness auto
termination
  by (relation "measure (\<lambda>(i, ws). 80 - i)") auto

fun sha1_add :: "sha1_state \<Rightarrow> sha1_state \<Rightarrow> sha1_state" where
  "sha1_add (h0, h1, h2, h3, h4) (a, b, c, d, e) = (h0 + a, h1 + b, h2 + c, h3 + d, h4 + e)"

definition sha1_block :: "sha1_state \<Rightarrow> byte list \<Rightarrow> sha1_state" where
  "sha1_block h p = sha1_add h (sha1_rounds 0 (block_words32 p, h))"

function sha1_blocks :: "sha1_state \<Rightarrow> byte list \<Rightarrow> sha1_state" where
  "sha1_blocks h p =
     (if length p < 64 then h else sha1_blocks (sha1_block h (take 64 p)) (drop 64 p))"
  by pat_completeness auto
termination
  by (relation "measure (\<lambda>(h, p). length p)") auto

fun sha1_digest :: "sha1_state \<Rightarrow> byte list" where
  "sha1_digest (h0, h1, h2, h3, h4) =
     BEPutUint32 h0 @ BEPutUint32 h1 @ BEPutUint32 h2 @ BEPutUint32 h3 @ BEPutUint32 h4"

definition sha1_Sum :: "byte list \<Rightarrow> byte list" where
  "sha1_Sum m = sha1_digest (sha1_blocks sha1_init (m @ sha1_padding (length m)))"

definition sha1_New :: hash_Hash where
  "sha1_New = \<lparr>hash_Size = 20, hash_BlockSize = 64, hash_Sum = sha1_Sum\<rparr>"

subsection \<open>SHA-256 (crypto/sha256)\<close>

text \<open>
  Padding is that of SHA-1. The sixteen words of a block are extended to 64 (each new
  word from the words 2, 7, 15 and 16 places back), and 64 rounds update eight working
  variables from the two temporaries \<open>t1\<close> and \<open>t2\<close>.
\<close>

type_synonym sha256_state =
  "uint32 \<times> uint32 \<times> uint32 \<times> uint32 \<times> uint32 \<times> uint32 \<times> uint32 \<times> uint32"

definition sha256_init :: sha256_state where
  "sha256_init =
    (0x6A09E667, 0xBB67AE85, 0x3C6EF372, 0xA54FF53A,
     0x510E527F, 0x9B05688C, 0x1F83D9AB, 0x5BE0CD19)"

definition sha256_K :: "uint32 list" where
  "sha256_K =
    [0x428A2F98, 0x71374491, 0xB5C0FBCF, 0xE9B5DBA5, 0x3956C25B, 0x59F111F1,
     0x923F82A4, 0xAB1C5ED5, 0xD807AA98, 0x12835B01, 0x243185BE, 0x550C7DC3,
     0x72BE5D74, 0x80DEB1FE, 0x9BDC06A7, 0xC19BF174, 0xE49B69C1, 0xEFBE4786,
     0x0FC19DC6, 0x240CA1CC, 0x2DE92C6F, 0x4A7484AA, 0x5CB0A9DC, 0x76F988DA,
     0x983E5152, 0xA831C66D, 0xB00327C8, 0xBF597FC7, 0xC6E00BF3, 0xD5A79147,
     0x06CA6351, 0x14292967, 0x27B70A85, 0x2E1B2138, 0x4D2C6DFC, 0x53380D13,
     0x650A7354, 0x766A0ABB, 0x81C2C92E, 0x92722C85, 0xA2BFE8A1, 0xA81A664B,
     0xC24B8B70, 0xC76C51A3, 0xD192E819, 0xD6990624, 0xF40E3585, 0x106AA070,
     0x19A4C116, 0x1E376C08, 0x2748774C, 0x34B0BCB5, 0x391C0CB3, 0x4ED8AA4A,
     0x5B9CCA4F, 0x682E6FF3, 0x748F82EE, 0x78A5636F, 0x84C87814, 0x8CC70208,
     0x90BEFFFA, 0xA4506CEB, 0xBEF9A3F7, 0xC67178F2]"

definition sha256_sigma1 :: "uint32 \<Rightarrow> uint32" where
  "sha256_sigma1 v1 = RotateRight32 v1 17 XOR RotateRight32 v1 19 XOR drop_bit 10 v1"

definition sha256_sigma0 :: "uint32 \<Rightarrow> uint32" where
  "sha256_sigma0 v2 = RotateRight32 v2 7 XOR RotateRight32 v2 18 XOR drop_bit 3 v2"

function sha256_schedule :: "nat \<Rightarrow> uint32 list \<Rightarrow> uint32 list" where
  "sha256_schedule i w =
     (if i < 64 then
        sha256_schedule (i + 1)
          (w @ [sha256_sigma1 (w ! (i - 2)) + w ! (i - 7)
                + sha256_sigma0 (w ! (i - 15)) + w ! (i - 16)])
      else w)"
  by pat_completeness auto
termination
  by (relation "measure (\<lambda>(i, w). 64 - i)") auto

definition sha256_t1 :: "uint32 \<Rightarrow> uint32 \<Rightarrow> uint32 \<Rightarrow> uint32 \<Rightarrow> uint32 \<Rightarrow> uint32 \<Rightarrow> uint32" where
  "sha256_t1 e f g h k wi =
     h + (RotateRight32 e 6 XOR RotateRight32 e 11 XOR RotateRight32 e 25)
       + ((e AND f) XOR (NOT e AND g)) + k + wi"

definition sha256_t2 :: "uint32 \<Rightarrow> uint32 \<Rightarrow> uint32 \<Rightarrow> uint32" where
  "sha256_t2 a b c =
     (RotateRight32 a 2 XOR RotateRight32 a 13 XOR RotateRight32 a 22)
       + ((a AND b) XOR (a AND c) XOR (b AND c))"

fun sha256_step :: "uint32 \<Rightarrow> uint32 \<Rightarrow> sha256_state \<Rightarrow> sha256_state" where
  "sha256_step t1 t2 (a, b, c, d, e, f, g, h) = (t1 + t2, a, b, c, d + t1, e, f, g)"

fun sha256_round :: "uint32 \<Rightarrow> uint32 \<Rightarrow> sha256_state \<Rightarrow> sha256_state" where
  "sha256_round k wi (a, b, c, d, e, f, g, h) =
     sha256_step (sha256_t1 e f g h k wi) (sha256_t2 a b c) (a, b, c, d, e, f, g, h)"

function sha256_rounds :: "nat \<Rightarrow> uint32 list \<Rightarrow> sha256_state \<Rightarrow> sha256_state" where
  "sha256_rounds i w s =
     (if i < 64 then sha256_rounds (i + 1) w (sha256_round (sha256_K ! i) (w ! i) s) else s)"
  by pat_completeness auto
termination
  by (relation "measure (\<lambda>(i, w, s). 64 - i)") auto

fun sha256_add :: "sha256_state \<Rightarrow> sha256_state \<Rightarrow> sha256_state" where
  "sha256_add (h0, h1, h2, h3, h4, h5, h6, h7) (a, b, c, d, e, f, g, h) =
     (h0 + a, h1 + b, h2 + c, h3 + d, h4 + e, h5 + f, h6 + g, h7 + h)"

definition sha256_block :: "sha256_state \<Rightarrow> byte list \<Rightarrow> sha256_state" where
  "sha256_block h p = sha256_add h (sha256_rounds 0 (sha256_schedule 16 (block_words32 p)) h)"

function sha256_blocks :: "sha256_state \<Rightarrow> byte list \<Rightarrow> sha256_state" where
  "sha256_blocks h p =
     (if length p < 64 then h else sha256_blocks (sha256_block h (take 64 p)) (drop 64 p))"
  by pat_completeness auto
termination
  by (relation "measure (\<lambda>(h, p). length p)") auto

fun sha256_digest :: "sha256_state \<Rightarrow> byte list" where
  "sha256_digest (h0, h1, h2, h3, h4, h5, h6, h7) =
     BEPutUint32 h0 @ BEPutUint32 h1 @ BEPutUint32 h2 @ BEPutUint32 h3
       @ BEPutUint32 h4 @ BEPutUint32 h5 @ BEPutUint32 h6 @ BEPutUint32 h7"

definition sha256_Sum :: "byte list \<Rightarrow> byte list" where
  "sha256_Sum m = sha256_digest (sha256_blocks sha256_init (m @ sha1_padding (length m)))"

definition sha256_New :: hash_Hash where
  "sha256_New = \<lparr>hash_Size = 32, hash_BlockSize = 64, hash_Sum = sha256_Sum\<rparr>"

subsection \<open>SHA-512 (crypto/sha512)\<close>

text \<open>
  Blocks are 128 bytes of sixteen 64-bit words; the padding runs up to 112 modulo 128
  and the length field is 16 bytes, of which the upper eight are always zero.
\<close>

definition sha512_padding :: "nat \<Rightarrow> byte list" where
  "sha512_padding len =
     0x80 # replicate ((if len mod 128 < 112 then 112 - len mod 128
                        else 128 + 112 - len mod 128) - 1) 0
       @ replicate 8 0 @ BEPutUint64 (push_bit 3 (of_nat len))"

type_synonym sha512_state =
  "uint64 \<times> uint64 \<times> uint64 \<times> uint64 \<times> uint64 \<times> uint64 \<times> uint64 \<times> uint64"

definition sha512_init :: sha512_state where
  "sha512_init =
    (0x6A09E667F3BCC908, 0xBB67AE8584CAA73B, 0x3C6EF372FE94F82B, 0xA54FF53A5F1D36F1,
     0x510E527FADE682D1, 0x9B05688C2B3E6C1F, 0x1F83D9ABFB41BD6B, 0x5BE0CD19137E2179)"

definition sha512_K :: "uint64 list" where
  "sha512_K =
    [0x428A2F98D728AE22, 0x7137449123EF65CD, 0xB5C0FBCFEC4D3B2F, 0xE9B5DBA58189DBBC,
     0x3956C25BF348B538, 0x59F111F1B605D019, 0x923F82A4AF194F9B, 0xAB1C5ED5DA6D8118,
     0xD807AA98A3030242, 0x12835B0145706FBE, 0x243185BE4EE4B28C, 0x550C7DC3D5FFB4E2,
     0x72BE5D74F27B896F, 0x80DEB1FE3B1696B1, 0x9BDC06A725C71235, 0xC19BF174CF692694,
     0xE49B69C19EF14AD2, 0xEFBE4786384F25E3, 0x0FC19DC68B8CD5B5, 0x240CA1CC77AC9C65,
     0x2DE92C6F592B0275, 0x4A7484AA6EA6E483, 0x5CB0A9DCBD41FBD4, 0x76F988DA831153B5,
     0x983E5152EE66DFAB, 0xA831C66D2DB43210, 0xB00327C898FB213F, 0xBF597FC7BEEF0EE4,
     0xC6E00BF33DA88FC2, 0xD5A79147930AA725, 0x06CA6351E003826F, 0x142929670A0E6E70,
     0x27B70A8546D22FFC, 0x2E1B21385C26C926, 0x4D2C6DFC5AC42AED, 0x53380D139D95B3DF,
     0x650A73548BAF63DE, 0x766A0ABB3C77B2A8, 0x81C2C92E47EDAEE6, 0x92722C851482353B,
     0xA2BFE8A14CF10364, 0xA81A664BBC423001, 0xC24B8B70D0F89791, 0xC76C51A30654BE30,
     0xD192E819D6EF5218, 0xD69906245565A910, 0xF40E35855771202A, 0x106AA07032BBD1B8,
     0x19A4C116B8D2D0C8, 0x1E376C085141AB53, 0x2748774CDF8EEB99, 0x34B0BCB5E19B48A8,
     0x391C0CB3C5C95A63, 0x4ED8AA4AE3418ACB, 0x5B9CCA4F7763E373, 0x682E6FF3D6B2B8A3,
     0x748F82EE5DEFB2FC, 0x78A5636F43172F60, 0x84C87814A1F0AB72, 0x8CC702081A6439EC,
     0x90BEFFFA23631E28, 0xA4506CEBDE82BDE9, 0xBEF9A3F7B2C67915, 0xC67178F2E372532B,
     0xCA273ECEEA26619C, 0xD186B8C721C0C207, 0xEADA7DD6CDE0EB1E, 0xF57D4F7FEE6ED178,
     0x06F067AA72176FBA, 0x0A637DC5A2C898A6, 0x113F9804BEF90DAE, 0x1B710B35131C471B,
     0x28DB77F523047D84, 0x32CAAB7B40C72493, 0x3C9EBE0A15C9BEBC, 0x431D67C49C100D4C,
     0x4CC5D4BECB3E42B6, 0x597F299CFC657E2A, 0x5FCB6FAB3AD6FAEC, 0x6C44198C4A475817]"

definition sha512_sigma1 :: "uint64 \<Rightarrow> uint64" where
  "sha512_sigma1 v1 = RotateRight64 v1 19 XOR RotateRight64 v1 61 XOR drop_bit 6 v1"

definition sha512_sigma0 :: "uint64 \<Rightarrow> uint64" where
  "sha512_sigma0 v2 = RotateRight64 v2 1 XOR RotateRight64 v2 8 XOR drop_bit 7 v2"

function sha512_schedule :: "nat \<Rightarrow> uint64 list \<Rightarrow> uint64 list" where
  "sha512_schedule i w =
     (if i < 80 then
        sha512_schedule (i + 1)
          (w @ [sha512_sigma1 (w ! (i - 2)) + w ! (i - 7)
                + sha512_sigma0 (w ! (i - 15)) + w ! (i - 16)])
      else w)"
  by pat_completeness auto
termination
  by (relation "measure (\<lambda>(i, w). 80 - i)") auto

definition sha512_t1 :: "uint64 \<Rightarrow> uint64 \<Rightarrow> uint64 \<Rightarrow> uint64 \<Rightarrow> uint64 \<Rightarrow> uint64 \<Rightarrow> uint64" where
  "sha512_t1 e f g h k wi =
     h + (RotateRight64 e 14 XOR RotateRight64 e 18 XOR RotateRight64 e 41)
       + ((e AND f) XOR (NOT e AND g)) + k + wi"

definition sha512_t2 :: "uint64 \<Rightarrow> uint64 \<Rightarrow> uint64 \<Rightarrow> uint64" where
  "sha512_t2 a b c =
     (RotateRight64 a 28 XOR RotateRight64 a 34 XOR RotateRight64 a 39)
       + ((a AND b) XOR (a AND c) XOR (b AND c))"

fun sha512_step :: "uint64 \<Rightarrow> uint64 \<Rightarrow> sha512_state \<Rightarrow> sha512_state" where
  "sha512_step t1 t2 (a, b, c, d, e, f, g, h) = (t1 + t2, a, b, c, d + t1, e, f, g)"

fun sha512_round :: "uint64 \<Rightarrow> uint64 \<Rightarrow> sha512_state \<Rightarrow> sha512_state" where
  "sha512_round k wi (a, b, c, d, e, f, g, h) =
     sha512_step (sha512_t1 e f g h k wi) (sha512_t2 a b c) (a, b, c, d, e, f, g, h)"

function sha512_rounds :: "nat \<Rightarrow> uint64 list \<Rightarrow> sha512_state \<Rightarrow> sha512_state" where
  "sha512_rounds i w s =
     (if i < 80 then sha512_rounds (i + 1) w (sha512_round (sha512_K ! i) (w ! i) s) else s)"
  by pat_completeness auto
termination
  by (relation "measure (\<lambda>(i, w, s). 80 - i)") auto

fun sha512_add :: "sha512_state \<Rightarrow> sha512_state \<Rightarrow> sha512_state" where
  "sha512_add (h0, h1, h2, h3, h4, h5, h6, h7) (a, b, c, d, e, f, g, h) =
     (h0 + a, h1 + b, h2 + c, h3 + d, h4 + e, h5 + f, h6 + g, h7 + h)"

definition sha512_block :: "sha512_state \<Rightarrow> byte list \<Rightarrow> sha512_state" where
  "sha512_block h p = sha512_add h (sha512_rounds 0 (sha512_schedule 16 (block_words64 p)) h)"

function sha512_blocks :: "sha512_state \<Rightarrow> byte list \<Rightarrow> sha512_state" where
  "sha512_blocks h p =
     (if length p < 128 then h else sha512_blocks (sha512_block h (take 128 p)) (drop 128 p))"
  by pat_completeness auto
termination
  by (relation "measure (\<lambda>(h, p). length p)") auto

fun sha512_digest :: "sha512_state \<Rightarrow> byte list" where
  "sha512_digest (h0, h1, h2, h3, h4, h5, h6, h7) =
     BEPutUint64 h0 @ BEPutUint64 h1 @ BEPutUint64 h2 @ BEPutUint64 h3
       @ BEPutUint64 h4 @ BEPutUint64 h5 @ BEPutUint64 h6 @ BEPutUint64 h7"

definition sha512_Sum :: "byte list \<Rightarrow> byte list" where
  "sha512_Sum m = sha512_digest (sha512_blocks sha512_init (m @ sha512_padding (length m)))"

definition sha512_New :: hash_Hash where
  "sha512_New = \<lparr>hash_Size = 64, hash_BlockSize = 128, hash_Sum = sha512_Sum\<rparr>"

section \<open>The keyed hash (crypto/hmac)\<close>

text \<open>
  \<^verbatim>\<open>hmac.New\<close> hashes a key longer than the block size, copies the key into two
  zeroed buffers of one block each and xors them with 0x36 and 0x5C;
  \<^verbatim>\<open>Sum\<close> is the outer hash of the outer pad followed by the inner digest.
\<close>

definition hmac_key :: "hash_Hash \<Rightarrow> byte list \<Rightarrow> byte list" where
  "hmac_key h key = (if hash_BlockSize h < length key then hash_Sum h key else key)"

definition hmac_pad :: "hash_Hash \<Rightarrow> byte list \<Rightarrow> byte \<Rightarrow> byte list" where
  "hmac_pad h key x =
     map (\<lambda>b. b XOR x) (take (hash_BlockSize h) key @ replicate (hash_BlockSize h - length key) 0)"

definition hmac_Sum :: "hash_Hash \<Rightarrow> byte list \<Rightarrow> byte list \<Rightarrow> byte list" where
  "hmac_Sum h key data =
     hash_Sum h (hmac_pad h (hmac_key h key) 0x5C
                 @ hash_Sum h (hmac_pad h (hmac_key h key) 0x36 @ data))"

section \<open>Base-32 decoding (encoding/base32, StdEncoding)\<close>

text \<open>
  \<^verbatim>\<open>DecodeString\<close> drops carriage returns and line feeds, then decodes quanta of
  eight characters into five bytes. A quantum may end in padding, which must fill it;
  one, three or six data characters before the padding are rejected. Every failure is
  a \<^verbatim>\<open>CorruptInputError\<close>. The bytes decoded before a failure are returned by the
  library together with the error; \<^verbatim>\<open>generateTOTP\<close> drops them, and so does the model.
\<close>

definition encodeStd :: string where
  "encodeStd = ''ABCDEFGHIJKLMNOPQRSTUVWXYZ234567''"

definition padChar :: char where
  "padChar = CHR ''=''"

fun alphabet_index :: "string \<Rightarrow> char \<Rightarrow> byte \<Rightarrow> byte" where
  "alphabet_index [] c i = 0xFF"
| "alphabet_index (a # as) c i = (if a = c then i else alphabet_index as c (i + 1))"

definition decodeMap :: "char \<Rightarrow> byte" where
  "decodeMap c = alphabet_index encodeStd c 0"

definition stripNewlines :: "string \<Rightarrow> string" where
  "stripNewlines src = filter (\<lambda>b. b \<noteq> CHR 0x0D \<and> b \<noteq> CHR 0x0A) src"

function bad_padding :: "nat \<Rightarrow> nat \<Rightarrow> string \<Rightarrow> nat option" where
  "bad_padding k lim src =
     (if k < lim then
        (if k < length src \<and> src ! k \<noteq> padChar then Some k else bad_padding (k + 1) lim src)
      else None)"
  by pat_completeness auto
termination
  by (relation "measure (\<lambda>(k, lim, src). lim - k)") auto

function decode_quantum ::
  "int \<Rightarrow> nat \<Rightarrow> byte list \<Rightarrow> string \<Rightarrow> go_error + (byte list \<times> nat \<times> bool \<times> string)" where
  "decode_quantum olen j dbuf src =
     (if j < 8 then
        (case src of
           [] \<Rightarrow> Inl (CorruptInputError (olen - int j))
         | c # src' \<Rightarrow>
             if c = padChar \<and> 2 \<le> j \<and> length src' < 8 then
               (if length src' + j < 8 - 1 then Inl (CorruptInputError olen)
                else case bad_padding 0 (8 - 1 - j) src' of
                       Some k \<Rightarrow> Inl (CorruptInputError (olen - int (length src') + int k - 1))
                     | None \<Rightarrow>
                         if j = 1 \<or> j = 3 \<or> j = 6
                         then Inl (CorruptInputError (olen - int (length src') - 1))
                         else Inr (dbuf, j, True, src'))
             else if decodeMap c = 0xFF
               then Inl (CorruptInputError (olen - int (length src') - 1))
             else decode_quantum olen (j + 1) (dbuf[j := decodeMap c]) src')
      else Inr (dbuf, 8, False, src))"
  by pat_completeness auto
termination
  by (relation "measure (\<lambda>(olen, j, dbuf, src). 8 - j)") auto

definition quantum_bytes :: "byte list \<Rightarrow> nat \<Rightarrow> byte list" where
  "quantum_bytes dbuf dlen =
     take (if dlen = 8 then 5 else if dlen = 7 then 4 else if dlen = 5 then 3
           else if dlen = 4 then 2 else if dlen = 2 then 1 else 0)
       [push_bit 3 (dbuf ! 0) OR drop_bit 2 (dbuf ! 1),
        push_bit 6 (dbuf ! 1) OR push_bit 1 (dbuf ! 2) OR drop_bit 4 (dbuf ! 3),
        push_bit 4 (dbuf ! 3) OR drop_bit 1 (dbuf ! 4),
        push_bit 7 (dbuf ! 4) OR push_bit 2 (dbuf ! 5) OR drop_bit 3 (dbuf ! 6),
        push_bit 5 (dbuf ! 6) OR dbuf ! 7]"

function decode :: "int \<Rightarrow> string \<Rightarrow> go_error + byte list" where
  "decode olen src =
     (if src = [] then Inr []
      else case decode_quantum olen 0 (replicate 8 0) src of
             Inl err \<Rightarrow> Inl err
           | Inr (dbuf, dlen, end, src') \<Rightarrow>
               if end then Inr (quantum_bytes dbuf dlen)
               else (case decode olen src' of
                       Inl err \<Rightarrow> Inl err
                     | Inr dst \<Rightarrow> Inr (quantum_bytes dbuf dlen @ dst)))"
  by pat_completeness auto
termination
proof (relation "measure (\<lambda>(olen, src). length src)")
  show "wf (measure (\<lambda>(olen, src). length src))"
    by simp
next
  fix olen :: int and src :: string
    and x2 :: "byte list \<times> nat \<times> bool \<times> string" and dbuf :: "byte list"
    and y :: "nat \<times> bool \<times> string" and dlen :: nat and ya :: "bool \<times> string"
    and e :: bool and src' :: string
  assume ne: "src \<noteq> []"
    and res: "decode_quantum olen 0 (replicate 8 0) src = Inr x2"
    and x2: "(dbuf, y) = x2" "(dlen, ya) = y" "(e, src') = ya"
  have shrink: "length r \<le> length s \<and> (j < 8 \<longrightarrow> length r < length s)"
    if "decode_quantum ol j d s = Inr (d', l', e', r)"
    for ol j d s d' l' e' r
    using that
  proof (induction ol j d s rule: decode_quantum.induct)
    case (1 ol j d s)
    show ?case
    proof (cases "j < 8")
      case False
      with "1.prems" show ?thesis by simp
    next
      case True
      show ?thesis
      proof (cases s)
        case Nil
        with True "1.prems" show ?thesis by simp
      next
        case (Cons c s')
        show ?thesis
        proof (cases "c = padChar \<and> 2 \<le> j \<and> length s' < 8")
          case pad: True
          with True Cons "1.prems" show ?thesis
            by (auto split: if_splits option.splits)
        next
          case nopad: False
          show ?thesis
          proof (cases "decodeMap c = 0xFF")
            case bad: True
            with True Cons nopad "1.prems" show ?thesis by auto
          next
            case good: False
            from True Cons nopad good "1.prems"
            have rec: "decode_quantum ol (j + 1) (d[j := decodeMap c]) s' = Inr (d', l', e', r)"
              by auto
            from "1.IH" [OF True Cons nopad good rec]
            have "length r \<le> length s'" by simp
            with Cons show ?thesis by simp
          qed
        qed
      qed
    qed
  qed
  from res x2 have "decode_quantum olen 0 (replicate 8 0) src = Inr (dbuf, dlen, e, src')"
    by auto
  from shrink [OF this] show "((olen, src'), (olen, src)) \<in> measure (\<lambda>(olen, src). length src)"
    by simp
qed

definition DecodeString :: "string \<Rightarrow> go_error + byte list" where
  "DecodeString s = decode (int (length (stripNewlines s))) (stripNewlines s)"

section \<open>The program (main.go)\<close>

definition DecodeBase32 :: "string \<Rightarrow> go_error + byte list" where
  "DecodeBase32 secret = DecodeString secret"

definition GenerateHMAC :: "hash_Hash \<Rightarrow> byte list \<Rightarrow> byte list \<Rightarrow> byte list" where
  "GenerateHMAC hashFunc key data = hmac_Sum hashFunc key data"

text \<open>
  \<^verbatim>\<open>ConvertTime\<close> fills an 8-byte slice from index 7 down to 0 with the low byte of
  \<^verbatim>\<open>interval\<close>, shifting \<^verbatim>\<open>interval\<close> right by 8 (arithmetically: it is an
  \<^verbatim>\<open>int64\<close>) after each store.
\<close>

function ConvertTime_loop :: "int \<Rightarrow> int64 \<Rightarrow> byte list \<Rightarrow> byte list" where
  "ConvertTime_loop i interval data =
     (if 0 \<le> i then
        ConvertTime_loop (i - 1) (signed_drop_bit 8 interval)
          (data[nat i := ucast (interval AND 0xFF)])
      else data)"
  by pat_completeness auto
termination
  by (relation "measure (\<lambda>(i, interval, data). nat (i + 1))") auto

definition ConvertTime :: "int64 \<Rightarrow> byte list" where
  "ConvertTime interval = ConvertTime_loop 7 interval (replicate 8 0)"

text \<open>
  Indexing a slice panics when the index is out of range. \<^verbatim>\<open>HashTruncation\<close> has
  no error result: it returns an \<^verbatim>\<open>int\<close> or panics. \<open>offset\<close> is a
  \<^verbatim>\<open>byte\<close>, the four indices are \<open>offset\<close> to \<open>offset + 3\<close>, and
  \<open>truncation_value\<close> is the expression returned.
\<close>

definition at_index :: "byte list \<Rightarrow> int \<Rightarrow> byte go_result" where
  "at_index s i =
     (if 0 \<le> i \<and> i < int (length s) then Returns (s ! nat i) else Panics IndexOutOfRange)"

definition and_then :: "'a go_result \<Rightarrow> ('a \<Rightarrow> 'b go_result) \<Rightarrow> 'b go_result" where
  "and_then r f = (case r of Panics e \<Rightarrow> Panics e | Returns x \<Rightarrow> f x)"

definition truncation_value :: "byte \<Rightarrow> byte \<Rightarrow> byte \<Rightarrow> byte \<Rightarrow> go_int" where
  "truncation_value b0 b1 b2 b3 =
     push_bit 24 (ucast b0 AND 0x7F) OR push_bit 16 (ucast b1 AND 0xFF)
       OR push_bit 8 (ucast b2 AND 0xFF) OR (ucast b3 AND 0xFF)"

definition HashTruncation :: "byte list \<Rightarrow> go_int go_result" where
  "HashTruncation hash =
     and_then (at_index hash (int (length hash) - 1)) (\<lambda>last_byte.
     and_then (at_index hash (uint (last_byte AND 0x0F))) (\<lambda>b0.
     and_then (at_index hash (uint ((last_byte AND 0x0F) + 1))) (\<lambda>b1.
     and_then (at_index hash (uint ((last_byte AND 0x0F) + 2))) (\<lambda>b2.
     and_then (at_index hash (uint ((last_byte AND 0x0F) + 3))) (\<lambda>b3.
       Returns (truncation_value b0 b1 b2 b3))))))"

text \<open>
  Go's \<^verbatim>\<open>/\<close> and \<^verbatim>\<open>%\<close> on signed integers truncate towards zero, and
  \<^verbatim>\<open>%\<close> panics on a zero divisor. The divisor of \<^verbatim>\<open>/\<close> in the program is the
  constant 30.
\<close>

definition int64_quo :: "int64 \<Rightarrow> int64 \<Rightarrow> int64" where
  "int64_quo a b = word_of_int (sint a sdiv sint b)"

definition int_rem :: "go_int \<Rightarrow> go_int \<Rightarrow> go_int go_result" where
  "int_rem a b = (if b = 0 then Panics DivideByZero else Returns (word_of_int (sint a smod sint b)))"

function divisor_loop :: "go_int \<Rightarrow> go_int \<Rightarrow> go_int \<Rightarrow> go_int" where
  "divisor_loop i digits divisor =
     (if i <s digits then divisor_loop (i + 1) digits (divisor * 10) else divisor)"
  by pat_completeness auto
termination
proof (relation "measure (\<lambda>(i, digits, divisor). nat (sint digits - sint i))")
  show "wf (measure (\<lambda>(i, digits, divisor). nat (sint digits - sint i)))"
    by simp
next
  fix i digits divisor :: go_int
  assume lt: "i <s digits"
  then have less: "sint i < sint digits"
    by (simp add: word_sless_alt)
  have "sint digits < 2 ^ 63"
    using sint_lt [of digits] by simp
  with less have up: "sint i + 1 < 2 ^ 63"
    by simp
  have "- (2 ^ 63) \<le> sint i"
    using sint_ge [of i] by simp
  with up have "sint (i + 1) = sint i + 1"
    by (simp add: sint_word_ariths signed_take_bit_int_eq_self)
  with less show "((i + 1, digits, divisor * 10), (i, digits, divisor))
      \<in> measure (\<lambda>(i, digits, divisor). nat (sint digits - sint i))"
    by simp
qed

text \<open>
  \<^verbatim>\<open>strconv.Itoa\<close>: the decimal digits of the value, most significant first, with
  no leading zeros and a minus sign for a negative value.
\<close>

function decimal :: "nat \<Rightarrow> string" where
  "decimal n =
     (if n < 10 then [''0123456789'' ! n]
      else decimal (n div 10) @ [''0123456789'' ! (n mod 10)])"
  by pat_completeness auto
termination
  by (relation "measure id") auto

definition Itoa :: "go_int \<Rightarrow> string" where
  "Itoa i = (if sint i < 0 then CHR ''-'' # decimal (nat (- sint i)) else decimal (nat (sint i)))"

text \<open>
  \<^verbatim>\<open>generateTOTP\<close> reads the clock; the model takes the result of
  \<^verbatim>\<open>time.Now().Unix()\<close> as the argument \<open>now\<close>. It returns the pair of the code and
  the error, or panics.
\<close>

definition generateTOTP ::
  "string \<Rightarrow> hash_Hash \<Rightarrow> go_int \<Rightarrow> int64 \<Rightarrow> (string \<times> go_error option) go_result" where
  "generateTOTP secret hashFunc digits now =
     (case DecodeBase32 secret of
        Inl err \<Rightarrow> Returns ('''', Some err)
      | Inr key \<Rightarrow>
          and_then (HashTruncation (GenerateHMAC hashFunc key (ConvertTime (int64_quo now 30))))
            (\<lambda>truncatedHash.
          and_then (int_rem truncatedHash (divisor_loop 0 digits 1))
            (\<lambda>totp. Returns (Itoa totp, None))))"

text \<open>The three hashes the program can select (the algorithm dropdown of \<^verbatim>\<open>main\<close>).\<close>

datatype algorithm = SHA1 | SHA256 | SHA512

fun hashFunc_of :: "algorithm \<Rightarrow> hash_Hash" where
  "hashFunc_of SHA1 = sha1_New"
| "hashFunc_of SHA256 = sha256_New"
| "hashFunc_of SHA512 = sha512_New"

section \<open>The specification's reading of two encodings\<close>

text \<open>
  The truncated integer as the specification words it: the offset is the low-order four
  bits of the last digest byte, and the value is the big-endian number of the four bytes
  from the offset, the first masked with 0x7F and the others with 0xFF.
\<close>

definition dynamic_truncation_spec :: "byte list \<Rightarrow> nat" where
  "dynamic_truncation_spec digest =
     (let offset = unat (take_bit 4 (last digest))
      in unat (digest ! offset AND 0x7F) * 2 ^ 24
         + unat (digest ! (offset + 1) AND 0xFF) * 2 ^ 16
         + unat (digest ! (offset + 2) AND 0xFF) * 2 ^ 8
         + unat (digest ! (offset + 3) AND 0xFF))"

text \<open>The number that a byte sequence denotes when its bytes are concatenated big-endian.\<close>

definition be_nat :: "byte list \<Rightarrow> nat" where
  "be_nat bs = foldl (\<lambda>acc b. acc * 256 + unat b) 0 bs"

declare sha1_rounds.simps [simp del] sha1_blocks.simps [simp del]
  sha256_schedule.simps [simp del] sha256_rounds.simps [simp del] sha256_blocks.simps [simp del]
  sha512_schedule.simps [simp del] sha512_rounds.simps [simp del] sha512_blocks.simps [simp del]
  bad_padding.simps [simp del] decode_quantum.simps [simp del] decode.simps [simp del]
  ConvertTime_loop.simps [simp del] divisor_loop.simps [simp del] decimal.simps [simp del]

section \<open>Digest lengths\<close>

lemma length_BEPutUint32: "length (BEPutUint32 v) = 4"
  by (simp add: BEPutUint32_def)

lemma length_BEPutUint64: "length (BEPutUint64 v) = 8"
  by (simp add: BEPutUint64_def)

lemma length_sha1_digest: "length (sha1_digest s) = 20"
  by (cases s rule: prod_cases5) (simp add: length_BEPutUint32)

lemma length_sha256_digest: "length (sha256_digest s) = 32"
proof -
  obtain a b c d e f g h where "s = (a, b, c, d, e, f, g, h)"
    by (cases s rule: prod_cases7) auto
  then show ?thesis
    by (simp add: length_BEPutUint32)
qed

lemma length_sha512_digest: "length (sha512_digest s) = 64"
proof -
  obtain a b c d e f g h where "s = (a, b, c, d, e, f, g, h)"
    by (cases s rule: prod_cases7) auto
  then show ?thesis
    by (simp add: length_BEPutUint64)
qed

lemma length_hash_Sum: "length (hash_Sum (hashFunc_of alg) m) = hash_Size (hashFunc_of alg)"
  by (cases alg)
    (simp_all add: sha1_New_def sha256_New_def sha512_New_def sha1_Sum_def sha256_Sum_def
      sha512_Sum_def length_sha1_digest length_sha256_digest length_sha512_digest)

lemma hash_Size_cases: "hash_Size (hashFunc_of alg) \<in> {20, 32, 64}"
  by (cases alg) (simp_all add: sha1_New_def sha256_New_def sha512_New_def)

lemma length_GenerateHMAC:
  "length (GenerateHMAC (hashFunc_of alg) key data) = hash_Size (hashFunc_of alg)"
  by (simp add: GenerateHMAC_def hmac_Sum_def length_hash_Sum)

section \<open>Dynamic truncation\<close>

lemma and_0x0F: "(b :: byte) AND 0x0F = take_bit 4 b"
  by (simp add: take_bit_eq_mask mask_eq_exp_minus_1)

lemma and_0x7F: "(x :: go_int) AND 0x7F = take_bit 7 x"
  by (simp add: take_bit_eq_mask mask_eq_exp_minus_1)

lemma and_0xFF: "(x :: go_int) AND 0xFF = take_bit 8 x"
  by (simp add: take_bit_eq_mask mask_eq_exp_minus_1)

lemma offset_bound: "unat (take_bit 4 (b :: byte)) < 16"
  by (simp add: unsigned_take_bit_eq take_bit_nat_less_exp [of 4, simplified])

lemma uint_offset_plus:
  "uint (take_bit 4 (b :: byte)) = int (unat (take_bit 4 b))"
  "uint (take_bit 4 (b :: byte) + 1) = int (unat (take_bit 4 b) + 1)"
  "uint (take_bit 4 (b :: byte) + 2) = int (unat (take_bit 4 b) + 2)"
  "uint (take_bit 4 (b :: byte) + 3) = int (unat (take_bit 4 b) + 3)"
proof -
  have step: "uint (take_bit 4 b + k) = int (unat (take_bit 4 b) + unat k)"
    if "unat k < 16" for k :: byte
  proof -
    have "unat (take_bit 4 b) + unat k < 2 ^ LENGTH(8)"
      using offset_bound [of b] that by simp
    with unat_add_lem [of "take_bit 4 b" k]
    have "unat (take_bit 4 b + k) = unat (take_bit 4 b) + unat k"
      by blast
    then show ?thesis
      by (metis of_nat_unat)
  qed
  show "uint (take_bit 4 b) = int (unat (take_bit 4 b))"
    by simp
  show "uint (take_bit 4 b + 1) = int (unat (take_bit 4 b) + 1)"
    using step [of 1] by simp
  show "uint (take_bit 4 b + 2) = int (unat (take_bit 4 b) + 2)"
    using step [of 2] by simp
  show "uint (take_bit 4 b + 3) = int (unat (take_bit 4 b) + 3)"
    using step [of 3] by simp
qed

lemma at_index_nat:
  "at_index s (int n) = (if n < length s then Returns (s ! n) else Panics IndexOutOfRange)"
  by (simp add: at_index_def)

text \<open>
  The whole of \<open>HashTruncation\<close> in one equation: it returns exactly when the digest
  is non-empty and the four indices lie inside it.
\<close>

lemma HashTruncation_eq:
  "HashTruncation hash =
     (if hash \<noteq> [] \<and> unat (last hash AND 0x0F) + 3 < length hash
      then Returns (truncation_value (hash ! unat (last hash AND 0x0F))
                      (hash ! (unat (last hash AND 0x0F) + 1))
                      (hash ! (unat (last hash AND 0x0F) + 2))
                      (hash ! (unat (last hash AND 0x0F) + 3)))
      else Panics IndexOutOfRange)"
proof (cases "hash = []")
  case True
  then show ?thesis
    by (simp add: HashTruncation_def at_index_def and_then_def)
next
  case False
  then have last: "hash ! nat (int (length hash) - 1) = last hash"
    by (simp add: last_conv_nth nat_diff_distrib')
  from False have "0 \<le> int (length hash) - 1 \<and> int (length hash) - 1 < int (length hash)"
    by (cases hash) simp_all
  with last have first: "at_index hash (int (length hash) - 1) = Returns (last hash)"
    by (simp add: at_index_def)
  show ?thesis
    unfolding HashTruncation_def first and_0x0F uint_offset_plus at_index_nat
    using False by (simp add: and_then_def)
qed

lemma HashTruncation_long:
  assumes "19 \<le> length hash"
  shows "HashTruncation hash =
     Returns (truncation_value (hash ! unat (last hash AND 0x0F))
                (hash ! (unat (last hash AND 0x0F) + 1))
                (hash ! (unat (last hash AND 0x0F) + 2))
                (hash ! (unat (last hash AND 0x0F) + 3)))"
proof -
  have "unat (last hash AND 0x0F) < 16"
    by (simp add: and_0x0F offset_bound)
  with assms have "hash \<noteq> [] \<and> unat (last hash AND 0x0F) + 3 < length hash"
    by auto
  then show ?thesis
    by (simp add: HashTruncation_eq)
qed

lemma HashTruncation_supported:
  "\<exists>v. HashTruncation (GenerateHMAC (hashFunc_of alg) key data) = Returns v"
proof -
  have "19 \<le> length (GenerateHMAC (hashFunc_of alg) key data)"
    using hash_Size_cases [of alg] by (auto simp add: length_GenerateHMAC)
  then show ?thesis
    by (simp add: HashTruncation_long)
qed

text \<open>The shifts and ORs of \<open>truncation_value\<close> add up to a number below \<open>2 ^ 31\<close>.\<close>

lemma ucast_and_0xFF: "(ucast (b :: byte) :: go_int) AND 0xFF = ucast b"
  by (simp add: and_0xFF) (auto simp add: bit_eq_iff bit_simps dest: bit_imp_le_length)

lemma ucast_and_0x7F: "(ucast (b :: byte) :: go_int) AND 0x7F = ucast (b AND 0x7F)"
proof -
  have "(b AND 0x7F) = take_bit 7 b"
    by (simp add: take_bit_eq_mask mask_eq_exp_minus_1)
  then show ?thesis
    by (simp add: and_0x7F) (auto simp add: bit_eq_iff bit_simps dest: bit_imp_le_length)
qed

lemma or_to_add:
  fixes b0 b1 b2 b3 :: byte
  shows "push_bit 24 (ucast b0 :: go_int) OR push_bit 16 (ucast b1) OR push_bit 8 (ucast b2) OR ucast b3
       = push_bit 24 (ucast b0) + (push_bit 16 (ucast b1) + (push_bit 8 (ucast b2) + ucast b3))"
proof -
  have 1: "push_bit 8 (ucast b2 :: go_int) + ucast b3 = push_bit 8 (ucast b2) OR ucast b3"
    by (rule disjunctive_add) (auto simp add: bit_simps dest: bit_imp_le_length)
  have 2: "push_bit 16 (ucast b1 :: go_int) + (push_bit 8 (ucast b2) OR ucast b3)
         = push_bit 16 (ucast b1) OR push_bit 8 (ucast b2) OR ucast b3"
    by (rule disjunctive_add) (auto simp add: bit_simps dest: bit_imp_le_length)
  have 3: "push_bit 24 (ucast b0 :: go_int)
             + (push_bit 16 (ucast b1) OR push_bit 8 (ucast b2) OR ucast b3)
         = push_bit 24 (ucast b0) OR push_bit 16 (ucast b1) OR push_bit 8 (ucast b2) OR ucast b3"
    by (rule disjunctive_add) (auto simp add: bit_simps dest: bit_imp_le_length)
  show ?thesis
    by (simp only: 1 2 3)
qed

lemma truncation_value_nat:
  "truncation_value b0 b1 b2 b3 =
     word_of_nat (unat (b0 AND 0x7F) * 2 ^ 24 + unat b1 * 2 ^ 16 + unat b2 * 2 ^ 8 + unat b3)"
  unfolding truncation_value_def ucast_and_0xFF ucast_and_0x7F or_to_add
  by (simp add: push_bit_eq_mult)

lemma truncation_bound:
  "unat ((b0 :: byte) AND 0x7F) * 2 ^ 24 + unat (b1 :: byte) * 2 ^ 16
     + unat (b2 :: byte) * 2 ^ 8 + unat (b3 :: byte) < 2 ^ 31"
proof -
  have "b0 AND 0x7F \<le> 0x7F"
    by (rule word_and_le1)
  then have "unat (b0 AND 0x7F) \<le> 127"
    by (simp add: word_le_nat_alt)
  moreover have "unat b1 < 256" "unat b2 < 256" "unat b3 < 256"
    using unsigned_less [of b1] unsigned_less [of b2] unsigned_less [of b3] by simp_all
  ultimately show ?thesis
    by simp
qed

section \<open>The divisor loop\<close>

lemma sint_succ:
  fixes i digits :: go_int
  assumes "i <s digits"
  shows "sint (i + 1) = sint i + 1"
proof -
  from assms have less: "sint i < sint digits"
    by (simp add: word_sless_alt)
  have "sint digits < 2 ^ 63"
    using sint_lt [of digits] by simp
  with less have up: "sint i + 1 < 2 ^ 63"
    by simp
  have "- (2 ^ 63) \<le> sint i"
    using sint_ge [of i] by simp
  with up show ?thesis
    by (simp add: sint_word_ariths signed_take_bit_int_eq_self)
qed

lemma divisor_loop_power:
  "sint i \<le> sint digits \<Longrightarrow>
   divisor_loop i digits divisor = divisor * 10 ^ nat (sint digits - sint i)"
proof (induction i digits divisor rule: divisor_loop.induct)
  case (1 i digits divisor)
  show ?case
  proof (cases "i <s digits")
    case True
    then have less: "sint i < sint digits"
      by (simp add: word_sless_alt)
    have succ: "sint (i + 1) = sint i + 1"
      by (rule sint_succ [OF True])
    with less have le: "sint (i + 1) \<le> sint digits"
      by simp
    have "nat (sint digits - sint i) = Suc (nat (sint digits - sint (i + 1)))"
      using less succ by simp
    with "1.IH" [OF True le] True show ?thesis
      by (simp add: divisor_loop.simps [of i] mult.assoc)
  next
    case False
    with "1.prems" have "sint digits = sint i"
      by (simp add: word_sless_alt)
    with False show ?thesis
      by (simp add: divisor_loop.simps [of i])
  qed
qed

text \<open>
  After the loop the divisor is \<open>10 ^ digits\<close> in 64-bit arithmetic (1 when
  \<open>digits\<close> is not positive), which is 0 exactly from 64 digits on:
  \<open>10 ^ 64 = 2 ^ 64 * 5 ^ 64\<close>.
\<close>

lemma divisor_loop_0: "divisor_loop 0 digits 1 = 10 ^ nat (sint digits)"
proof (cases "0 \<le> sint digits")
  case True
  then show ?thesis
    using divisor_loop_power [of 0 digits 1] by simp
next
  case False
  then have "\<not> 0 <s digits"
    by (simp add: word_sless_alt)
  with False show ?thesis
    by (simp add: divisor_loop.simps [of 0])
qed

lemma power10_word_eq_0: "(10 :: go_int) ^ n = 0 \<longleftrightarrow> 64 \<le> n"
proof -
  have "(10 :: go_int) ^ n = word_of_nat (10 ^ n)"
    by simp
  then have "(10 :: go_int) ^ n = 0 \<longleftrightarrow> (2 :: nat) ^ 64 dvd 10 ^ n"
    by (simp only: word_of_nat_eq_0_iff) simp
  also have "\<dots> \<longleftrightarrow> (2 :: nat) ^ 64 dvd 2 ^ n"
  proof -
    have "(10 :: nat) ^ n = 2 ^ n * 5 ^ n"
      by (simp flip: power_mult_distrib)
    moreover have "coprime ((2 :: nat) ^ 64) (5 ^ n)"
      by (rule coprime_power_left_iff [THEN iffD2], rule disjI1,
          rule coprime_power_right_iff [THEN iffD2]) simp
    ultimately show ?thesis
      by (simp add: coprime_dvd_mult_left_iff)
  qed
  also have "\<dots> \<longleftrightarrow> 64 \<le> n"
    by (rule dvd_power_iff_le) simp
  finally show ?thesis .
qed

lemma divisor_zero_iff: "divisor_loop 0 digits 1 = 0 \<longleftrightarrow> 64 \<le> sint digits"
  by (auto simp add: divisor_loop_0 power10_word_eq_0)

section \<open>The outcomes of generateTOTP\<close>

lemma generateTOTP_undecoded:
  "DecodeBase32 secret = Inl err \<Longrightarrow>
   generateTOTP secret hashFunc digits now = Returns ('''', Some err)"
  by (simp add: generateTOTP_def)

lemma generateTOTP_decoded:
  assumes "DecodeBase32 secret = Inr key"
    and "HashTruncation (GenerateHMAC hashFunc key (ConvertTime (int64_quo now 30))) = Returns v"
    and "sint digits < 64"
  shows "generateTOTP secret hashFunc digits now =
     Returns (Itoa (word_of_int (sint v smod sint (divisor_loop 0 digits 1))), None)"
proof -
  from assms(3) have "divisor_loop 0 digits 1 \<noteq> 0"
    by (simp add: divisor_zero_iff)
  with assms(1,2) show ?thesis
    by (simp add: generateTOTP_def and_then_def int_rem_def)
qed

lemma generateTOTP_overflow:
  assumes "DecodeBase32 secret = Inr key"
    and "HashTruncation (GenerateHMAC hashFunc key (ConvertTime (int64_quo now 30))) = Returns v"
    and "64 \<le> sint digits"
  shows "generateTOTP secret hashFunc digits now = Panics DivideByZero"
proof -
  from assms(3) have "divisor_loop 0 digits 1 = 0"
    by (simp add: divisor_zero_iff)
  with assms(1,2) show ?thesis
    by (simp add: generateTOTP_def and_then_def int_rem_def)
qed

section \<open>The time counter\<close>

lemma replicate_num: "replicate (numeral k) x = x # replicate (pred_numeral k) x"
  by (simp add: numeral_eq_Suc)

text \<open>The loop of \<open>ConvertTime\<close> writes the eight bytes of its argument, high byte first.\<close>

lemma ConvertTime_bytes: "ConvertTime interval = BEPutUint64 interval"
proof -
  have byte: "(ucast (signed_drop_bit n interval AND 0xFF) :: byte) = ucast (drop_bit n interval)"
    if "n \<le> 56" for n
    using that by (auto simp add: bit_eq_iff bit_simps and_0xFF dest: bit_imp_le_length)
  have low: "(ucast (interval AND 0xFF) :: byte) = ucast interval"
    by (auto simp add: bit_eq_iff bit_simps and_0xFF)
  show ?thesis
    by (simp add: ConvertTime_def ConvertTime_loop.simps replicate_num BEPutUint64_def byte low)
qed

lemma unat_byte_of: "unat (ucast (drop_bit k (v :: uint64)) :: byte) = unat v div 2 ^ k mod 256"
  by (simp only: unsigned_ucast_eq unat_drop_bit_eq) (simp add: drop_bit_eq_div take_bit_eq_mod)

lemma unat_drop: "unat (drop_bit k (v :: uint64)) = unat v div 2 ^ k"
  by (simp add: unat_drop_bit_eq) (simp add: drop_bit_eq_div)

lemma unat_byte_low: "unat (ucast (v :: uint64) :: byte) = unat v mod 256"
  by (simp add: unsigned_ucast_eq take_bit_eq_mod)

lemma be_nat_BEPutUint64: "be_nat (BEPutUint64 v) = unat v"
proof -
  define n where "n = unat v"
  have "n < 2 ^ 64"
    using unsigned_less [of v] by (simp add: n_def)
  then have top: "n mod (2 ^ 56 * 256) = n"
    by simp
  have split:
    "n mod (2 ^ 56 * 256) = 2 ^ 56 * (n div 2 ^ 56 mod 256) + n mod 2 ^ 56"
    "n mod (2 ^ 48 * 256) = 2 ^ 48 * (n div 2 ^ 48 mod 256) + n mod 2 ^ 48"
    "n mod (2 ^ 40 * 256) = 2 ^ 40 * (n div 2 ^ 40 mod 256) + n mod 2 ^ 40"
    "n mod (2 ^ 32 * 256) = 2 ^ 32 * (n div 2 ^ 32 mod 256) + n mod 2 ^ 32"
    "n mod (2 ^ 24 * 256) = 2 ^ 24 * (n div 2 ^ 24 mod 256) + n mod 2 ^ 24"
    "n mod (2 ^ 16 * 256) = 2 ^ 16 * (n div 2 ^ 16 mod 256) + n mod 2 ^ 16"
    "n mod (2 ^ 8 * 256) = 2 ^ 8 * (n div 2 ^ 8 mod 256) + n mod 2 ^ 8"
    by (rule mod_mult2_eq)+
  have "be_nat (BEPutUint64 v) =
      2 ^ 56 * (n div 2 ^ 56 mod 256) + 2 ^ 48 * (n div 2 ^ 48 mod 256)
      + 2 ^ 40 * (n div 2 ^ 40 mod 256) + 2 ^ 32 * (n div 2 ^ 32 mod 256)
      + 2 ^ 24 * (n div 2 ^ 24 mod 256) + 2 ^ 16 * (n div 2 ^ 16 mod 256)
      + 2 ^ 8 * (n div 2 ^ 8 mod 256) + n mod 2 ^ 8"
    by (simp add: be_nat_def BEPutUint64_def unat_byte_of unat_byte_low unat_drop n_def)
  also have "\<dots> = n"
    using split top by simp
  finally show ?thesis
    by (simp add: n_def)
qed

lemma be_nat_ConvertTime: "be_nat (ConvertTime interval) = unat interval"
  by (simp add: ConvertTime_bytes be_nat_BEPutUint64)

lemma inj_ConvertTime: "inj ConvertTime"
proof (rule injI)
  fix x y :: int64
  assume "ConvertTime x = ConvertTime y"
  then have "be_nat (ConvertTime x) = be_nat (ConvertTime y)"
    by simp
  then show "x = y"
    by (simp add: be_nat_ConvertTime word_unat_eq_iff)
qed

text \<open>Go's division rounds towards zero: down for a time after the epoch, up before it.\<close>

lemma int64_quo_nonneg:
  assumes "0 \<le> sint t"
  shows "unat (int64_quo t 30) = nat (sint t) div 30"
proof -
  have lt: "sint t < 2 ^ 63"
    using sint_lt [of t] by simp
  from assms have quo: "sint t sdiv 30 = sint t div 30"
    by (simp add: signed_divide_int_def sgn_if)
  have "0 \<le> sint t div 30" "sint t div 30 < 2 ^ 64"
    using assms lt by (simp_all add: div_int_pos_iff)
  then have "uint (word_of_int (sint t div 30) :: int64) = sint t div 30"
    by (simp add: word_of_int_inverse)
  then have "unat (word_of_int (sint t div 30) :: int64) = nat (sint t div 30)"
    by (metis nat_int of_nat_unat)
  with assms show ?thesis
    by (simp add: int64_quo_def quo nat_div_distrib)
qed

section \<open>Evaluation at concrete inputs\<close>

text \<open>
  The simplifier computes with word numerals but does not reduce them modulo the word
  size, so each arithmetic result is cut to its width as it is produced.
\<close>

lemma sha1_round_eval:
  "sha1_round i w (a, b, c, d, e) =
     (w, take_bit 32 (RotateLeft32 a 5 + sha1_f i b c d + e + w ! (i mod 16) + sha1_K i),
         a, take_bit 32 (RotateLeft32 b 30), c, d)"
  by (simp add: take_bit_word_eq_self)

lemma sha1_w_eval:
  "sha1_w i w =
     (if i < 16 then w
      else w[i mod 16 :=
             take_bit 32 (RotateLeft32 (w ! ((i - 3) mod 16) XOR w ! ((i - 8) mod 16)
                                        XOR w ! ((i - 14) mod 16) XOR w ! (i mod 16)) 1)])"
  by (simp add: take_bit_word_eq_self sha1_w_def)

lemma sha1_add_eval:
  "sha1_add (h0, h1, h2, h3, h4) (a, b, c, d, e) =
     (take_bit 32 (h0 + a), take_bit 32 (h1 + b), take_bit 32 (h2 + c),
      take_bit 32 (h3 + d), take_bit 32 (h4 + e))"
  by (simp add: take_bit_word_eq_self)

lemma BEPutUint32_eval:
  "BEPutUint32 v =
     [take_bit 8 (ucast (drop_bit 24 v)), take_bit 8 (ucast (drop_bit 16 v)),
      take_bit 8 (ucast (drop_bit 8 v)), take_bit 8 (ucast v)]"
  by (simp add: take_bit_word_eq_self BEPutUint32_def)

lemma BEPutUint64_eval:
  "BEPutUint64 v =
     [take_bit 8 (ucast (drop_bit 56 v)), take_bit 8 (ucast (drop_bit 48 v)),
      take_bit 8 (ucast (drop_bit 40 v)), take_bit 8 (ucast (drop_bit 32 v)),
      take_bit 8 (ucast (drop_bit 24 v)), take_bit 8 (ucast (drop_bit 16 v)),
      take_bit 8 (ucast (drop_bit 8 v)), take_bit 8 (ucast v)]"
  by (simp add: take_bit_word_eq_self BEPutUint64_def)

lemmas sha1_eval =
  sha1_block_def sha1_rounds.simps sha1_round_eval sha1_w_eval sha1_add_eval
  sha1_f_def sha1_K_def RotateLeft32_def BEUint32_def

subsection \<open>The key of RFC 6238, Appendix B\<close>

text \<open>
  The secret is the base-32 text of the ASCII bytes \<^verbatim>\<open>12345678901234567890\<close>. The
  first block of the inner and of the outer hash depends on the key alone.
\<close>

lemma decode_rfc_secret:
  "DecodeBase32 ''GEZDGNBVGY3TQOJQGEZDGNBVGY3TQOJQ'' =
   Inr [0x31, 0x32, 0x33, 0x34, 0x35, 0x36, 0x37, 0x38, 0x39, 0x30,
        0x31, 0x32, 0x33, 0x34, 0x35, 0x36, 0x37, 0x38, 0x39, 0x30]"
  by (simp add: DecodeBase32_def DecodeString_def stripNewlines_def decode.simps
      decode_quantum.simps decodeMap_def encodeStd_def padChar_def quantum_bytes_def
      replicate_num)

lemma sha1_ipad_rfc:
  "sha1_block (0x67452301, 0xEFCDAB89, 0x98BADCFE, 0x10325476, 0xC3D2E1F0)
    [0x07, 0x04, 0x05, 0x02, 0x03, 0x00, 0x01, 0x0E, 0x0F, 0x06, 0x07, 0x04, 0x05, 0x02, 0x03, 0x00,
     0x01, 0x0E, 0x0F, 0x06, 0x36, 0x36, 0x36, 0x36, 0x36, 0x36, 0x36, 0x36, 0x36, 0x36, 0x36, 0x36,
     0x36, 0x36, 0x36, 0x36, 0x36, 0x36, 0x36, 0x36, 0x36, 0x36, 0x36, 0x36, 0x36, 0x36, 0x36, 0x36,
     0x36, 0x36, 0x36, 0x36, 0x36, 0x36, 0x36, 0x36, 0x36, 0x36, 0x36, 0x36, 0x36, 0x36, 0x36, 0x36] =
   (0xCBC80C8C, 0xF599E2AC, 0xBDB8C832, 0xDA95C1C3, 0xF8683025)"
  by (simp add: sha1_eval del: sha1_round.simps sha1_add.simps)

lemma sha1_opad_rfc:
  "sha1_block (0x67452301, 0xEFCDAB89, 0x98BADCFE, 0x10325476, 0xC3D2E1F0)
    [0x6D, 0x6E, 0x6F, 0x68, 0x69, 0x6A, 0x6B, 0x64, 0x65, 0x6C, 0x6D, 0x6E, 0x6F, 0x68, 0x69, 0x6A,
     0x6B, 0x64, 0x65, 0x6C, 0x5C, 0x5C, 0x5C, 0x5C, 0x5C, 0x5C, 0x5C, 0x5C, 0x5C, 0x5C, 0x5C, 0x5C,
     0x5C, 0x5C, 0x5C, 0x5C, 0x5C, 0x5C, 0x5C, 0x5C, 0x5C, 0x5C, 0x5C, 0x5C, 0x5C, 0x5C, 0x5C, 0x5C,
     0x5C, 0x5C, 0x5C, 0x5C, 0x5C, 0x5C, 0x5C, 0x5C, 0x5C, 0x5C, 0x5C, 0x5C, 0x5C, 0x5C, 0x5C, 0x5C] =
   (0x98BDBDCD, 0x58E07BFE, 0xAD5CDDEA, 0x3AC0430B, 0xFE106825)"
  by (simp add: sha1_eval del: sha1_round.simps sha1_add.simps)

subsection \<open>Time 59\<close>

lemma counter_59:
  "ConvertTime (int64_quo 59 30) = [0x00, 0x00, 0x00, 0x00, 0x00, 0x00, 0x00, 0x01]"
  by (simp add: ConvertTime_def ConvertTime_loop.simps int64_quo_def replicate_num)

lemma sha1_inner_rfc_59:
  "sha1_block (0xCBC80C8C, 0xF599E2AC, 0xBDB8C832, 0xDA95C1C3, 0xF8683025)
    [0x00, 0x00, 0x00, 0x00, 0x00, 0x00, 0x00, 0x01, 0x80, 0x00, 0x00, 0x00, 0x00, 0x00, 0x00, 0x00,
     0x00, 0x00, 0x00, 0x00, 0x00, 0x00, 0x00, 0x00, 0x00, 0x00, 0x00, 0x00, 0x00, 0x00, 0x00, 0x00,
     0x00, 0x00, 0x00, 0x00, 0x00, 0x00, 0x00, 0x00, 0x00, 0x00, 0x00, 0x00, 0x00, 0x00, 0x00, 0x00,
     0x00, 0x00, 0x00, 0x00, 0x00, 0x00, 0x00, 0x00, 0x00, 0x00, 0x00, 0x00, 0x00, 0x00, 0x02, 0x40] =
   (0xAE398AD2, 0xE539D65C, 0x5DA2DA9C, 0x8A613441, 0x97393A8C)"
  by (simp add: sha1_eval del: sha1_round.simps sha1_add.simps)

lemma sha1_outer_rfc_59:
  "sha1_block (0x98BDBDCD, 0x58E07BFE, 0xAD5CDDEA, 0x3AC0430B, 0xFE106825)
    [0xAE, 0x39, 0x8A, 0xD2, 0xE5, 0x39, 0xD6, 0x5C, 0x5D, 0xA2, 0xDA, 0x9C, 0x8A, 0x61, 0x34, 0x41,
     0x97, 0x39, 0x3A, 0x8C, 0x80, 0x00, 0x00, 0x00, 0x00, 0x00, 0x00, 0x00, 0x00, 0x00, 0x00, 0x00,
     0x00, 0x00, 0x00, 0x00, 0x00, 0x00, 0x00, 0x00, 0x00, 0x00, 0x00, 0x00, 0x00, 0x00, 0x00, 0x00,
     0x00, 0x00, 0x00, 0x00, 0x00, 0x00, 0x00, 0x00, 0x00, 0x00, 0x00, 0x00, 0x00, 0x00, 0x02, 0xA0] =
   (0x75A48A19, 0xD4CBE100, 0x644E8AC1, 0x397EEA74, 0x7A2D33AB)"
  by (simp add: sha1_eval del: sha1_round.simps sha1_add.simps)

lemma hmac_rfc_59:
  "GenerateHMAC sha1_New
     [0x31, 0x32, 0x33, 0x34, 0x35, 0x36, 0x37, 0x38, 0x39, 0x30,
     0x31, 0x32, 0x33, 0x34, 0x35, 0x36, 0x37, 0x38, 0x39, 0x30]
     [0x00, 0x00, 0x00, 0x00, 0x00, 0x00, 0x00, 0x01] =
   [0x75, 0xA4, 0x8A, 0x19, 0xD4, 0xCB, 0xE1, 0x00, 0x64, 0x4E,
     0x8A, 0xC1, 0x39, 0x7E, 0xEA, 0x74, 0x7A, 0x2D, 0x33, 0xAB]"
  unfolding GenerateHMAC_def hmac_Sum_def
  apply (simp add: hmac_key_def hmac_pad_def sha1_New_def replicate_num)
  apply (simp add: sha1_Sum_def sha1_padding_def sha1_init_def sha1_blocks.simps replicate_num
      BEPutUint64_eval BEPutUint32_eval sha1_ipad_rfc sha1_opad_rfc sha1_inner_rfc_59 sha1_outer_rfc_59)
  done

lemma truncated_rfc_59:
  "HashTruncation
     [0x75, 0xA4, 0x8A, 0x19, 0xD4, 0xCB, 0xE1, 0x00, 0x64, 0x4E,
     0x8A, 0xC1, 0x39, 0x7E, 0xEA, 0x74, 0x7A, 0x2D, 0x33, 0xAB] =
   Returns 1094287082"
  by (simp add: HashTruncation_def at_index_def and_then_def truncation_value_def)

subsection \<open>Time 1111111109\<close>

lemma counter_1111111109:
  "ConvertTime (int64_quo 1111111109 30) = [0x00, 0x00, 0x00, 0x00, 0x02, 0x35, 0x23, 0xEC]"
  by (simp add: ConvertTime_def ConvertTime_loop.simps int64_quo_def replicate_num)

lemma sha1_inner_rfc_1111111109:
  "sha1_block (0xCBC80C8C, 0xF599E2AC, 0xBDB8C832, 0xDA95C1C3, 0xF8683025)
    [0x00, 0x00, 0x00, 0x00, 0x02, 0x35, 0x23, 0xEC, 0x80, 0x00, 0x00, 0x00, 0x00, 0x00, 0x00, 0x00,
     0x00, 0x00, 0x00, 0x00, 0x00, 0x00, 0x00, 0x00, 0x00, 0x00, 0x00, 0x00, 0x00, 0x00, 0x00, 0x00,
     0x00, 0x00, 0x00, 0x00, 0x00, 0x00, 0x00, 0x00, 0x00, 0x00, 0x00, 0x00, 0x00, 0x00, 0x00, 0x00,
     0x00, 0x00, 0x00, 0x00, 0x00, 0x00, 0x00, 0x00, 0x00, 0x00, 0x00, 0x00, 0x00, 0x00, 0x02, 0x40] =
   (0xA6C6E82D, 0x15751DCA, 0xC1C6BA17, 0x1FC4B1F3, 0xD10BAF9A)"
  by (simp add: sha1_eval del: sha1_round.simps sha1_add.simps)

lemma sha1_outer_rfc_1111111109:
  "sha1_block (0x98BDBDCD, 0x58E07BFE, 0xAD5CDDEA, 0x3AC0430B, 0xFE106825)
    [0xA6, 0xC6, 0xE8, 0x2D, 0x15, 0x75, 0x1D, 0xCA, 0xC1, 0xC6, 0xBA, 0x17, 0x1F, 0xC4, 0xB1, 0xF3,
     0xD1, 0x0B, 0xAF, 0x9A, 0x80, 0x00, 0x00, 0x00, 0x00, 0x00, 0x00, 0x00, 0x00, 0x00, 0x00, 0x00,
     0x00, 0x00, 0x00, 0x00, 0x00, 0x00, 0x00, 0x00, 0x00, 0x00, 0x00, 0x00, 0x00, 0x00, 0x00, 0x00,
     0x00, 0x00, 0x00, 0x00, 0x00, 0x00, 0x00, 0x00, 0x00, 0x00, 0x00, 0x00, 0x00, 0x00, 0x02, 0xA0] =
   (0x278C02E5, 0x3610F84C, 0x40BD9135, 0xACD41010, 0x12410A14)"
  by (simp add: sha1_eval del: sha1_round.simps sha1_add.simps)

lemma hmac_rfc_1111111109:
  "GenerateHMAC sha1_New
     [0x31, 0x32, 0x33, 0x34, 0x35, 0x36, 0x37, 0x38, 0x39, 0x30,
     0x31, 0x32, 0x33, 0x34, 0x35, 0x36, 0x37, 0x38, 0x39, 0x30]
     [0x00, 0x00, 0x00, 0x00, 0x02, 0x35, 0x23, 0xEC] =
   [0x27, 0x8C, 0x02, 0xE5, 0x36, 0x10, 0xF8, 0x4C, 0x40, 0xBD,
     0x91, 0x35, 0xAC, 0xD4, 0x10, 0x10, 0x12, 0x41, 0x0A, 0x14]"
  unfolding GenerateHMAC_def hmac_Sum_def
  apply (simp add: hmac_key_def hmac_pad_def sha1_New_def replicate_num)
  apply (simp add: sha1_Sum_def sha1_padding_def sha1_init_def sha1_blocks.simps replicate_num
      BEPutUint64_eval BEPutUint32_eval sha1_ipad_rfc sha1_opad_rfc sha1_inner_rfc_1111111109 sha1_outer_rfc_1111111109)
  done

lemma truncated_rfc_1111111109:
  "HashTruncation
     [0x27, 0x8C, 0x02, 0xE5, 0x36, 0x10, 0xF8, 0x4C, 0x40, 0xBD,
     0x91, 0x35, 0xAC, 0xD4, 0x10, 0x10, 0x12, 0x41, 0x0A, 0x14] =
   Returns 907081804"
  by (simp add: HashTruncation_def at_index_def and_then_def truncation_value_def)

subsection \<open>Time 1111111111\<close>

lemma counter_1111111111:
  "ConvertTime (int64_quo 1111111111 30) = [0x00, 0x00, 0x00, 0x00, 0x02, 0x35, 0x23, 0xED]"
  by (simp add: ConvertTime_def ConvertTime_loop.simps int64_quo_def replicate_num)

lemma sha1_inner_rfc_1111111111:
  "sha1_block (0xCBC80C8C, 0xF599E2AC, 0xBDB8C832, 0xDA95C1C3, 0xF8683025)
    [0x00, 0x00, 0x00, 0x00, 0x02, 0x35, 0x23, 0xED, 0x80, 0x00, 0x00, 0x00, 0x00, 0x00, 0x00, 0x00,
     0x00, 0x00, 0x00, 0x00, 0x00, 0x00, 0x00, 0x00, 0x00, 0x00, 0x00, 0x00, 0x00, 0x00, 0x00, 0x00,
     0x00, 0x00, 0x00, 0x00, 0x00, 0x00, 0x00, 0x00, 0x00, 0x00, 0x00, 0x00, 0x00, 0x00, 0x00, 0x00,
     0x00, 0x00, 0x00, 0x00, 0x00, 0x00, 0x00, 0x00, 0x00, 0x00, 0x00, 0x00, 0x00, 0x00, 0x02, 0x40] =
   (0x34AB3FF9, 0xB1746DDB, 0x9AA66CA8, 0xAF8C8E09, 0xDADEA120)"
  by (simp add: sha1_eval del: sha1_round.simps sha1_add.simps)

lemma sha1_outer_rfc_1111111111:
  "sha1_block (0x98BDBDCD, 0x58E07BFE, 0xAD5CDDEA, 0x3AC0430B, 0xFE106825)
    [0x34, 0xAB, 0x3F, 0xF9, 0xB1, 0x74, 0x6D, 0xDB, 0x9A, 0xA6, 0x6C, 0xA8, 0xAF, 0x8C, 0x8E, 0x09,
     0xDA, 0xDE, 0xA1, 0x20, 0x80, 0x00, 0x00, 0x00, 0x00, 0x00, 0x00, 0x00, 0x00, 0x00, 0x00, 0x00,
     0x00, 0x00, 0x00, 0x00, 0x00, 0x00, 0x00, 0x00, 0x00, 0x00, 0x00, 0x00, 0x00, 0x00, 0x00, 0x00,
     0x00, 0x00, 0x00, 0x00, 0x00, 0x00, 0x00, 0x00, 0x00, 0x00, 0x00, 0x00, 0x00, 0x00, 0x02, 0xA0] =
   (0xB0092B21, 0xD048AF20, 0x9DA0A1DD, 0xD498ADE8, 0xA79487ED)"
  by (simp add: sha1_eval del: sha1_round.simps sha1_add.simps)

lemma hmac_rfc_1111111111:
  "GenerateHMAC sha1_New
     [0x31, 0x32, 0x33, 0x34, 0x35, 0x36, 0x37, 0x38, 0x39, 0x30,
     0x31, 0x32, 0x33, 0x34, 0x35, 0x36, 0x37, 0x38, 0x39, 0x30]
     [0x00, 0x00, 0x00, 0x00, 0x02, 0x35, 0x23, 0xED] =
   [0xB0, 0x09, 0x2B, 0x21, 0xD0, 0x48, 0xAF, 0x20, 0x9D, 0xA0,
     0xA1, 0xDD, 0xD4, 0x98, 0xAD, 0xE8, 0xA7, 0x94, 0x87, 0xED]"
  unfolding GenerateHMAC_def hmac_Sum_def
  apply (simp add: hmac_key_def hmac_pad_def sha1_New_def replicate_num)
  apply (simp add: sha1_Sum_def sha1_padding_def sha1_init_def sha1_blocks.simps replicate_num
      BEPutUint64_eval BEPutUint32_eval sha1_ipad_rfc sha1_opad_rfc sha1_inner_rfc_1111111111 sha1_outer_rfc_1111111111)
  done

lemma truncated_rfc_1111111111:
  "HashTruncation
     [0xB0, 0x09, 0x2B, 0x21, 0xD0, 0x48, 0xAF, 0x20, 0x9D, 0xA0,
     0xA1, 0xDD, 0xD4, 0x98, 0xAD, 0xE8, 0xA7, 0x94, 0x87, 0xED] =
   Returns 414050471"
  by (simp add: HashTruncation_def at_index_def and_then_def truncation_value_def)

subsection \<open>Time -30\<close>

lemma counter_minus_30:
  "ConvertTime (int64_quo (- 30) 30) = [0xFF, 0xFF, 0xFF, 0xFF, 0xFF, 0xFF, 0xFF, 0xFF]"
  by (simp add: ConvertTime_def ConvertTime_loop.simps int64_quo_def replicate_num)

lemma sha1_inner_rfc_minus_30:
  "sha1_block (0xCBC80C8C, 0xF599E2AC, 0xBDB8C832, 0xDA95C1C3, 0xF8683025)
    [0xFF, 0xFF, 0xFF, 0xFF, 0xFF, 0xFF, 0xFF, 0xFF, 0x80, 0x00, 0x00, 0x00, 0x00, 0x00, 0x00, 0x00,
     0x00, 0x00, 0x00, 0x00, 0x00, 0x00, 0x00, 0x00, 0x00, 0x00, 0x00, 0x00, 0x00, 0x00, 0x00, 0x00,
     0x00, 0x00, 0x00, 0x00, 0x00, 0x00, 0x00, 0x00, 0x00, 0x00, 0x00, 0x00, 0x00, 0x00, 0x00, 0x00,
     0x00, 0x00, 0x00, 0x00, 0x00, 0x00, 0x00, 0x00, 0x00, 0x00, 0x00, 0x00, 0x00, 0x00, 0x02, 0x40] =
   (0x009E1D2F, 0x3AC98E90, 0x47ADB00C, 0x4C83C06C, 0xA8FD511E)"
  by (simp add: sha1_eval del: sha1_round.simps sha1_add.simps)

lemma sha1_outer_rfc_minus_30:
  "sha1_block (0x98BDBDCD, 0x58E07BFE, 0xAD5CDDEA, 0x3AC0430B, 0xFE106825)
    [0x00, 0x9E, 0x1D, 0x2F, 0x3A, 0xC9, 0x8E, 0x90, 0x47, 0xAD, 0xB0, 0x0C, 0x4C, 0x83, 0xC0, 0x6C,
     0xA8, 0xFD, 0x51, 0x1E, 0x80, 0x00, 0x00, 0x00, 0x00, 0x00, 0x00, 0x00, 0x00, 0x00, 0x00, 0x00,
     0x00, 0x00, 0x00, 0x00, 0x00, 0x00, 0x00, 0x00, 0x00, 0x00, 0x00, 0x00, 0x00, 0x00, 0x00, 0x00,
     0x00, 0x00, 0x00, 0x00, 0x00, 0x00, 0x00, 0x00, 0x00, 0x00, 0x00, 0x00, 0x00, 0x00, 0x02, 0xA0] =
   (0xF616FD66, 0xB7F06290, 0x686B6320, 0xCEB34D65, 0xB1FE93EA)"
  by (simp add: sha1_eval del: sha1_round.simps sha1_add.simps)

lemma hmac_rfc_minus_30:
  "GenerateHMAC sha1_New
     [0x31, 0x32, 0x33, 0x34, 0x35, 0x36, 0x37, 0x38, 0x39, 0x30,
     0x31, 0x32, 0x33, 0x34, 0x35, 0x36, 0x37, 0x38, 0x39, 0x30]
     [0xFF, 0xFF, 0xFF, 0xFF, 0xFF, 0xFF, 0xFF, 0xFF] =
   [0xF6, 0x16, 0xFD, 0x66, 0xB7, 0xF0, 0x62, 0x90, 0x68, 0x6B,
     0x63, 0x20, 0xCE, 0xB3, 0x4D, 0x65, 0xB1, 0xFE, 0x93, 0xEA]"
  unfolding GenerateHMAC_def hmac_Sum_def
  apply (simp add: hmac_key_def hmac_pad_def sha1_New_def replicate_num)
  apply (simp add: sha1_Sum_def sha1_padding_def sha1_init_def sha1_blocks.simps replicate_num
      BEPutUint64_eval BEPutUint32_eval sha1_ipad_rfc sha1_opad_rfc sha1_inner_rfc_minus_30 sha1_outer_rfc_minus_30)
  done

lemma truncated_rfc_minus_30:
  "HashTruncation
     [0xF6, 0x16, 0xFD, 0x66, 0xB7, 0xF0, 0x62, 0x90, 0x68, 0x6B,
     0x63, 0x20, 0xCE, 0xB3, 0x4D, 0x65, 0xB1, 0xFE, 0x93, 0xEA] =
   Returns 1663094451"
  by (simp add: HashTruncation_def at_index_def and_then_def truncation_value_def)

subsection \<open>The empty key\<close>

lemma decode_empty_secret: "DecodeBase32 '''' = Inr []"
  by (simp add: DecodeBase32_def DecodeString_def stripNewlines_def decode.simps)

lemma sha1_ipad_empty:
  "sha1_block (0x67452301, 0xEFCDAB89, 0x98BADCFE, 0x10325476, 0xC3D2E1F0)
    [0x36, 0x36, 0x36, 0x36, 0x36, 0x36, 0x36, 0x36, 0x36, 0x36, 0x36, 0x36, 0x36, 0x36, 0x36, 0x36,
     0x36, 0x36, 0x36, 0x36, 0x36, 0x36, 0x36, 0x36, 0x36, 0x36, 0x36, 0x36, 0x36, 0x36, 0x36, 0x36,
     0x36, 0x36, 0x36, 0x36, 0x36, 0x36, 0x36, 0x36, 0x36, 0x36, 0x36, 0x36, 0x36, 0x36, 0x36, 0x36,
     0x36, 0x36, 0x36, 0x36, 0x36, 0x36, 0x36, 0x36, 0x36, 0x36, 0x36, 0x36, 0x36, 0x36, 0x36, 0x36] =
   (0xC9F7BD57, 0x621BD73B, 0xEA0FEAD1, 0x41A5A132, 0x4E4F361D)"
  by (simp add: sha1_eval del: sha1_round.simps sha1_add.simps)

lemma sha1_opad_empty:
  "sha1_block (0x67452301, 0xEFCDAB89, 0x98BADCFE, 0x10325476, 0xC3D2E1F0)
    [0x5C, 0x5C, 0x5C, 0x5C, 0x5C, 0x5C, 0x5C, 0x5C, 0x5C, 0x5C, 0x5C, 0x5C, 0x5C, 0x5C, 0x5C, 0x5C,
     0x5C, 0x5C, 0x5C, 0x5C, 0x5C, 0x5C, 0x5C, 0x5C, 0x5C, 0x5C, 0x5C, 0x5C, 0x5C, 0x5C, 0x5C, 0x5C,
     0x5C, 0x5C, 0x5C, 0x5C, 0x5C, 0x5C, 0x5C, 0x5C, 0x5C, 0x5C, 0x5C, 0x5C, 0x5C, 0x5C, 0x5C, 0x5C,
     0x5C, 0x5C, 0x5C, 0x5C, 0x5C, 0x5C, 0x5C, 0x5C, 0x5C, 0x5C, 0x5C, 0x5C, 0x5C, 0x5C, 0x5C, 0x5C] =
   (0x978A24A4, 0x70DAF4D3, 0x13E1BE88, 0x387C2231, 0x7456516D)"
  by (simp add: sha1_eval del: sha1_round.simps sha1_add.simps)

lemma sha1_inner_empty_59:
  "sha1_block (0xC9F7BD57, 0x621BD73B, 0xEA0FEAD1, 0x41A5A132, 0x4E4F361D)
    [0x00, 0x00, 0x00, 0x00, 0x00, 0x00, 0x00, 0x01, 0x80, 0x00, 0x00, 0x00, 0x00, 0x00, 0x00, 0x00,
     0x00, 0x00, 0x00, 0x00, 0x00, 0x00, 0x00, 0x00, 0x00, 0x00, 0x00, 0x00, 0x00, 0x00, 0x00, 0x00,
     0x00, 0x00, 0x00, 0x00, 0x00, 0x00, 0x00, 0x00, 0x00, 0x00, 0x00, 0x00, 0x00, 0x00, 0x00, 0x00,
     0x00, 0x00, 0x00, 0x00, 0x00, 0x00, 0x00, 0x00, 0x00, 0x00, 0x00, 0x00, 0x00, 0x00, 0x02, 0x40] =
   (0x531FEFB0, 0x37405DA9, 0xA9C3556B, 0x78F4FE8B, 0xA8AE5539)"
  by (simp add: sha1_eval del: sha1_round.simps sha1_add.simps)

lemma sha1_outer_empty_59:
  "sha1_block (0x978A24A4, 0x70DAF4D3, 0x13E1BE88, 0x387C2231, 0x7456516D)
    [0x53, 0x1F, 0xEF, 0xB0, 0x37, 0x40, 0x5D, 0xA9, 0xA9, 0xC3, 0x55, 0x6B, 0x78, 0xF4, 0xFE, 0x8B,
     0xA8, 0xAE, 0x55, 0x39, 0x80, 0x00, 0x00, 0x00, 0x00, 0x00, 0x00, 0x00, 0x00, 0x00, 0x00, 0x00,
     0x00, 0x00, 0x00, 0x00, 0x00, 0x00, 0x00, 0x00, 0x00, 0x00, 0x00, 0x00, 0x00, 0x00, 0x00, 0x00,
     0x00, 0x00, 0x00, 0x00, 0x00, 0x00, 0x00, 0x00, 0x00, 0x00, 0x00, 0x00, 0x00, 0x00, 0x02, 0xA0] =
   (0xEEB00B0B, 0xCC864679, 0xFF2D8DD3, 0x0BEC495C, 0xB5F2EE9E)"
  by (simp add: sha1_eval del: sha1_round.simps sha1_add.simps)

lemma hmac_empty_59:
  "GenerateHMAC sha1_New
     []
     [0x00, 0x00, 0x00, 0x00, 0x00, 0x00, 0x00, 0x01] =
   [0xEE, 0xB0, 0x0B, 0x0B, 0xCC, 0x86, 0x46, 0x79, 0xFF, 0x2D,
     0x8D, 0xD3, 0x0B, 0xEC, 0x49, 0x5C, 0xB5, 0xF2, 0xEE, 0x9E]"
  unfolding GenerateHMAC_def hmac_Sum_def
  apply (simp add: hmac_key_def hmac_pad_def sha1_New_def replicate_num)
  apply (simp add: sha1_Sum_def sha1_padding_def sha1_init_def sha1_blocks.simps replicate_num
      BEPutUint64_eval BEPutUint32_eval sha1_ipad_empty sha1_opad_empty sha1_inner_empty_59 sha1_outer_empty_59)
  done

lemma truncated_empty_59:
  "HashTruncation
     [0xEE, 0xB0, 0x0B, 0x0B, 0xCC, 0x86, 0x46, 0x79, 0xFF, 0x2D,
     0x8D, 0xD3, 0x0B, 0xEC, 0x49, 0x5C, 0xB5, 0xF2, 0xEE, 0x9E] =
   Returns 1230812658"
  by (simp add: HashTruncation_def at_index_def and_then_def truncation_value_def)

subsection \<open>The default secret of the program\<close>

text \<open>
  \<^verbatim>\<open>main\<close> starts with the secret \<^verbatim>\<open>JBSWY3DPEHPK3PXP\<close>, SHA-1 and 6 digits.
  The time 1793577600 is 2 November 2026, 00:00:00 UTC.
\<close>

lemma decode_default_secret:
  "DecodeBase32 ''JBSWY3DPEHPK3PXP'' =
   Inr [0x48, 0x65, 0x6C, 0x6C, 0x6F, 0x21, 0xDE, 0xAD, 0xBE, 0xEF]"
  by (simp add: DecodeBase32_def DecodeString_def stripNewlines_def decode.simps
      decode_quantum.simps decodeMap_def encodeStd_def padChar_def quantum_bytes_def
      replicate_num)

lemma sha1_ipad_default:
  "sha1_block (0x67452301, 0xEFCDAB89, 0x98BADCFE, 0x10325476, 0xC3D2E1F0)
    [0x7E, 0x53, 0x5A, 0x5A, 0x59, 0x17, 0xE8, 0x9B, 0x88, 0xD9, 0x36, 0x36, 0x36, 0x36, 0x36, 0x36,
     0x36, 0x36, 0x36, 0x36, 0x36, 0x36, 0x36, 0x36, 0x36, 0x36, 0x36, 0x36, 0x36, 0x36, 0x36, 0x36,
     0x36, 0x36, 0x36, 0x36, 0x36, 0x36, 0x36, 0x36, 0x36, 0x36, 0x36, 0x36, 0x36, 0x36, 0x36, 0x36,
     0x36, 0x36, 0x36, 0x36, 0x36, 0x36, 0x36, 0x36, 0x36, 0x36, 0x36, 0x36, 0x36, 0x36, 0x36, 0x36] =
   (0xDD7977CC, 0x524AE662, 0xE7271F7E, 0x08988DA5, 0xA6752811)"
  by (simp add: sha1_eval del: sha1_round.simps sha1_add.simps)

lemma sha1_opad_default:
  "sha1_block (0x67452301, 0xEFCDAB89, 0x98BADCFE, 0x10325476, 0xC3D2E1F0)
    [0x14, 0x39, 0x30, 0x30, 0x33, 0x7D, 0x82, 0xF1, 0xE2, 0xB3, 0x5C, 0x5C, 0x5C, 0x5C, 0x5C, 0x5C,
     0x5C, 0x5C, 0x5C, 0x5C, 0x5C, 0x5C, 0x5C, 0x5C, 0x5C, 0x5C, 0x5C, 0x5C, 0x5C, 0x5C, 0x5C, 0x5C,
     0x5C, 0x5C, 0x5C, 0x5C, 0x5C, 0x5C, 0x5C, 0x5C, 0x5C, 0x5C, 0x5C, 0x5C, 0x5C, 0x5C, 0x5C, 0x5C,
     0x5C, 0x5C, 0x5C, 0x5C, 0x5C, 0x5C, 0x5C, 0x5C, 0x5C, 0x5C, 0x5C, 0x5C, 0x5C, 0x5C, 0x5C, 0x5C] =
   (0x9D05C23C, 0x9147519F, 0xB4F768D0, 0x47167008, 0x90B6DA0D)"
  by (simp add: sha1_eval del: sha1_round.simps sha1_add.simps)

lemma counter_1793577600:
  "ConvertTime (int64_quo 1793577600 30) = [0x00, 0x00, 0x00, 0x00, 0x03, 0x90, 0x42, 0xC0]"
  by (simp add: ConvertTime_def ConvertTime_loop.simps int64_quo_def replicate_num)

lemma sha1_inner_default_1793577600:
  "sha1_block (0xDD7977CC, 0x524AE662, 0xE7271F7E, 0x08988DA5, 0xA6752811)
    [0x00, 0x00, 0x00, 0x00, 0x03, 0x90, 0x42, 0xC0, 0x80, 0x00, 0x00, 0x00, 0x00, 0x00, 0x00, 0x00,
     0x00, 0x00, 0x00, 0x00, 0x00, 0x00, 0x00, 0x00, 0x00, 0x00, 0x00, 0x00, 0x00, 0x00, 0x00, 0x00,
     0x00, 0x00, 0x00, 0x00, 0x00, 0x00, 0x00, 0x00, 0x00, 0x00, 0x00, 0x00, 0x00, 0x00, 0x00, 0x00,
     0x00, 0x00, 0x00, 0x00, 0x00, 0x00, 0x00, 0x00, 0x00, 0x00, 0x00, 0x00, 0x00, 0x00, 0x02, 0x40] =
   (0x30288117, 0x9E488823, 0xC4E5401D, 0xC9AD691A, 0xC71D753C)"
  by (simp add: sha1_eval del: sha1_round.simps sha1_add.simps)

lemma sha1_outer_default_1793577600:
  "sha1_block (0x9D05C23C, 0x9147519F, 0xB4F768D0, 0x47167008, 0x90B6DA0D)
    [0x30, 0x28, 0x81, 0x17, 0x9E, 0x48, 0x88, 0x23, 0xC4, 0xE5, 0x40, 0x1D, 0xC9, 0xAD, 0x69, 0x1A,
     0xC7, 0x1D, 0x75, 0x3C, 0x80, 0x00, 0x00, 0x00, 0x00, 0x00, 0x00, 0x00, 0x00, 0x00, 0x00, 0x00,
     0x00, 0x00, 0x00, 0x00, 0x00, 0x00, 0x00, 0x00, 0x00, 0x00, 0x00, 0x00, 0x00, 0x00, 0x00, 0x00,
     0x00, 0x00, 0x00, 0x00, 0x00, 0x00, 0x00, 0x00, 0x00, 0x00, 0x00, 0x00, 0x00, 0x00, 0x02, 0xA0] =
   (0x1531B6F8, 0xF5950C37, 0x10C03B49, 0x7F4F6E7E, 0x484D6CF8)"
  by (simp add: sha1_eval del: sha1_round.simps sha1_add.simps)

lemma hmac_default_1793577600:
  "GenerateHMAC sha1_New
     [0x48, 0x65, 0x6C, 0x6C, 0x6F, 0x21, 0xDE, 0xAD, 0xBE, 0xEF]
     [0x00, 0x00, 0x00, 0x00, 0x03, 0x90, 0x42, 0xC0] =
   [0x15, 0x31, 0xB6, 0xF8, 0xF5, 0x95, 0x0C, 0x37, 0x10, 0xC0,
     0x3B, 0x49, 0x7F, 0x4F, 0x6E, 0x7E, 0x48, 0x4D, 0x6C, 0xF8]"
  unfolding GenerateHMAC_def hmac_Sum_def
  apply (simp add: hmac_key_def hmac_pad_def sha1_New_def replicate_num)
  apply (simp add: sha1_Sum_def sha1_padding_def sha1_init_def sha1_blocks.simps replicate_num
      BEPutUint64_eval BEPutUint32_eval sha1_ipad_default sha1_opad_default sha1_inner_default_1793577600 sha1_outer_default_1793577600)
  done

lemma truncated_default_1793577600:
  "HashTruncation
     [0x15, 0x31, 0xB6, 0xF8, 0xF5, 0x95, 0x0C, 0x37, 0x10, 0xC0,
     0x3B, 0x49, 0x7F, 0x4F, 0x6E, 0x7E, 0x48, 0x4D, 0x6C, 0xF8] =
   Returns 281033545"
  by (simp add: HashTruncation_def at_index_def and_then_def truncation_value_def)


subsection \<open>Divisors and decimal rendering\<close>

lemma divisor_5: "divisor_loop 0 5 1 = 100000"
  by (simp add: divisor_loop.simps word_sless_alt)

lemma divisor_6: "divisor_loop 0 6 1 = 1000000"
  by (simp add: divisor_loop.simps word_sless_alt)

lemma divisor_8: "divisor_loop 0 8 1 = 100000000"
  by (simp add: divisor_loop.simps word_sless_alt)

subsection \<open>Known answers for SHA-256 and SHA-512\<close>

text \<open>
  The digests of the three bytes \<^verbatim>\<open>abc\<close>, as FIPS 180 lists them. SHA-1 is
  exercised by the HMAC digests above.
\<close>

lemma sha256_schedule_eval:
  "sha256_schedule i w =
     (if i < 64 then
        sha256_schedule (i + 1)
          (w @ [take_bit 32 (sha256_sigma1 (w ! (i - 2)) + w ! (i - 7)
                             + sha256_sigma0 (w ! (i - 15)) + w ! (i - 16))])
      else w)"
  by (subst sha256_schedule.simps) (simp add: take_bit_word_eq_self)

lemma sha256_t1_eval:
  "sha256_t1 e f g h k wi =
     take_bit 32 (h + (RotateRight32 e 6 XOR RotateRight32 e 11 XOR RotateRight32 e 25)
                  + ((e AND f) XOR (NOT e AND g)) + k + wi)"
  by (simp add: take_bit_word_eq_self sha256_t1_def)

lemma sha256_t2_eval:
  "sha256_t2 a b c =
     take_bit 32 ((RotateRight32 a 2 XOR RotateRight32 a 13 XOR RotateRight32 a 22)
                  + ((a AND b) XOR (a AND c) XOR (b AND c)))"
  by (simp add: take_bit_word_eq_self sha256_t2_def)

lemma sha256_step_eval:
  "sha256_step t1 t2 (a, b, c, d, e, f, g, h) =
     (take_bit 32 (t1 + t2), a, b, c, take_bit 32 (d + t1), e, f, g)"
  by (simp add: take_bit_word_eq_self)

lemma sha256_add_eval:
  "sha256_add (h0, h1, h2, h3, h4, h5, h6, h7) (a, b, c, d, e, f, g, h) =
     (take_bit 32 (h0 + a), take_bit 32 (h1 + b), take_bit 32 (h2 + c), take_bit 32 (h3 + d),
      take_bit 32 (h4 + e), take_bit 32 (h5 + f), take_bit 32 (h6 + g), take_bit 32 (h7 + h))"
  by (simp add: take_bit_word_eq_self)

lemma sha256_abc:
  "sha256_Sum [0x61, 0x62, 0x63] =
     [0xBA, 0x78, 0x16, 0xBF, 0x8F, 0x01, 0xCF, 0xEA,
     0x41, 0x41, 0x40, 0xDE, 0x5D, 0xAE, 0x22, 0x23,
     0xB0, 0x03, 0x61, 0xA3, 0x96, 0x17, 0x7A, 0x9C,
     0xB4, 0x10, 0xFF, 0x61, 0xF2, 0x00, 0x15, 0xAD]"
  by (simp add: sha256_Sum_def sha256_init_def sha1_padding_def sha256_blocks.simps
      sha256_block_def sha256_schedule_eval sha256_rounds.simps sha256_K_def
      sha256_t1_eval sha256_t2_eval sha256_step_eval sha256_add_eval
      sha256_sigma0_def sha256_sigma1_def RotateRight32_def BEUint32_def
      BEPutUint32_eval BEPutUint64_eval replicate_num
      del: sha256_step.simps sha256_add.simps)

lemma sha512_schedule_eval:
  "sha512_schedule i w =
     (if i < 80 then
        sha512_schedule (i + 1)
          (w @ [take_bit 64 (sha512_sigma1 (w ! (i - 2)) + w ! (i - 7)
                             + sha512_sigma0 (w ! (i - 15)) + w ! (i - 16))])
      else w)"
  by (subst sha512_schedule.simps) (simp add: take_bit_word_eq_self)

lemma sha512_t1_eval:
  "sha512_t1 e f g h k wi =
     take_bit 64 (h + (RotateRight64 e 14 XOR RotateRight64 e 18 XOR RotateRight64 e 41)
                  + ((e AND f) XOR (NOT e AND g)) + k + wi)"
  by (simp add: take_bit_word_eq_self sha512_t1_def)

lemma sha512_t2_eval:
  "sha512_t2 a b c =
     take_bit 64 ((RotateRight64 a 28 XOR RotateRight64 a 34 XOR RotateRight64 a 39)
                  + ((a AND b) XOR (a AND c) XOR (b AND c)))"
  by (simp add: take_bit_word_eq_self sha512_t2_def)

lemma sha512_step_eval:
  "sha512_step t1 t2 (a, b, c, d, e, f, g, h) =
     (take_bit 64 (t1 + t2), a, b, c, take_bit 64 (d + t1), e, f, g)"
  by (simp add: take_bit_word_eq_self)

lemma sha512_add_eval:
  "sha512_add (h0, h1, h2, h3, h4, h5, h6, h7) (a, b, c, d, e, f, g, h) =
     (take_bit 64 (h0 + a), take_bit 64 (h1 + b), take_bit 64 (h2 + c), take_bit 64 (h3 + d),
      take_bit 64 (h4 + e), take_bit 64 (h5 + f), take_bit 64 (h6 + g), take_bit 64 (h7 + h))"
  by (simp add: take_bit_word_eq_self)

lemma sha512_abc:
  "sha512_Sum [0x61, 0x62, 0x63] =
     [0xDD, 0xAF, 0x35, 0xA1, 0x93, 0x61, 0x7A, 0xBA,
     0xCC, 0x41, 0x73, 0x49, 0xAE, 0x20, 0x41, 0x31,
     0x12, 0xE6, 0xFA, 0x4E, 0x89, 0xA9, 0x7E, 0xA2,
     0x0A, 0x9E, 0xEE, 0xE6, 0x4B, 0x55, 0xD3, 0x9A,
     0x21, 0x92, 0x99, 0x2A, 0x27, 0x4F, 0xC1, 0xA8,
     0x36, 0xBA, 0x3C, 0x23, 0xA3, 0xFE, 0xEB, 0xBD,
     0x45, 0x4D, 0x44, 0x23, 0x64, 0x3C, 0xE8, 0x0E,
     0x2A, 0x9A, 0xC9, 0x4F, 0xA5, 0x4C, 0xA4, 0x9F]"
  by (simp add: sha512_Sum_def sha512_init_def sha512_padding_def sha512_blocks.simps
      sha512_block_def sha512_schedule_eval sha512_rounds.simps sha512_K_def
      sha512_t1_eval sha512_t2_eval sha512_step_eval sha512_add_eval
      sha512_sigma0_def sha512_sigma1_def RotateRight64_def BEUint64_def
      BEPutUint64_eval replicate_num
      del: sha512_step.simps sha512_add.simps)

lemma decode_bad_secret: "DecodeBase32 ''1'' = Inl (CorruptInputError 0)"
  by (simp add: DecodeBase32_def DecodeString_def stripNewlines_def decode.simps
      decode_quantum.simps decodeMap_def encodeStd_def padChar_def replicate_num)

section \<open>Consequences for the whole pipeline\<close>

lemma int64_quo_neg:
  assumes "sint t < 0"
  shows "sint (int64_quo t 30) = - ((- sint t) div 30)"
proof -
  define r where "r = - ((- sint t) div 30)"
  have ge: "- (2 ^ 63) \<le> sint t"
    using sint_ge [of t] by simp
  from assms have quo: "sint t sdiv 30 = r"
    by (simp add: signed_divide_int_def sgn_if r_def)
  have "0 \<le> (- sint t) div 30" "(- sint t) div 30 \<le> 2 ^ 63"
    using assms ge by (simp_all add: div_int_pos_iff)
  then have "- (2 ^ 63) \<le> r" "r < 2 ^ 63"
    by (simp_all add: r_def)
  then have "sint (word_of_int r :: int64) = r"
    by (simp add: signed_of_int signed_take_bit_int_eq_self)
  then show ?thesis
    by (simp add: int64_quo_def quo r_def)
qed

lemma be_nat_ConvertTime_sint: "int (be_nat (ConvertTime c)) = sint c mod 2 ^ 64"
proof -
  have "uint c = take_bit 64 (sint c)"
    using uint_sint [of c] by simp
  then show ?thesis
    by (simp add: be_nat_ConvertTime take_bit_eq_mod)
qed

text \<open>
  With one of the three hashes, a secret that decodes and fewer than 64 digits, every
  stage after the decoder succeeds.
\<close>

lemma generateTOTP_supported:
  assumes "DecodeBase32 secret = Inr key" and "sint digits < 64"
  shows "\<exists>v. HashTruncation (GenerateHMAC (hashFunc_of alg) key (ConvertTime (int64_quo now 30)))
              = Returns v
           \<and> generateTOTP secret (hashFunc_of alg) digits now
              = Returns (Itoa (word_of_int (sint v smod sint (divisor_loop 0 digits 1))), None)"
proof -
  obtain v where
    "HashTruncation (GenerateHMAC (hashFunc_of alg) key (ConvertTime (int64_quo now 30))) = Returns v"
    using HashTruncation_supported by blast
  with generateTOTP_decoded [OF assms(1) this assms(2)] show ?thesis
    by blast
qed

lemma byte_and_0xFF: "(b :: byte) AND 0xFF = b"
proof -
  have "(0xFF :: byte) = - 1"
    by simp
  then show ?thesis
    by (simp only: and.right_neutral)
qed

lemma sint_small_nat:
  assumes "n < 2 ^ 31"
  shows "sint (word_of_nat n :: go_int) = int n"
proof -
  from assms have "int n < 2 ^ 63"
    by (simp add: order_less_le_trans [of _ "2 ^ 31"])
  then show ?thesis
    by (simp add: signed_of_nat signed_take_bit_int_eq_self)
qed

section \<open>The claims\<close>

subsection \<open>C1: the vectors of RFC 6238, Appendix B\<close>

text \<open>
  C1. With the secret of RFC 6238 (the base-32 text of \<^verbatim>\<open>12345678901234567890\<close>),
  SHA-1 and 8 digits, the RFC expects 94287082 at 59 s, 07081804 at 1111111109 s and
  14050471 at 1111111111 s. \<open>generateTOTP\<close> returns the first and the third, and at
  1111111109 s the seven characters 7081804: \<^verbatim>\<open>strconv.Itoa\<close> drops the leading zero.
\<close>

theorem rfc6238_vectors:
  "generateTOTP ''GEZDGNBVGY3TQOJQGEZDGNBVGY3TQOJQ'' (hashFunc_of SHA1) 8 59
     = Returns (''94287082'', None)
   \<and> generateTOTP ''GEZDGNBVGY3TQOJQGEZDGNBVGY3TQOJQ'' (hashFunc_of SHA1) 8 1111111109
     = Returns (''7081804'', None)
   \<and> generateTOTP ''GEZDGNBVGY3TQOJQGEZDGNBVGY3TQOJQ'' (hashFunc_of SHA1) 8 1111111111
     = Returns (''14050471'', None)"
  by (simp add: generateTOTP_def decode_rfc_secret counter_59 counter_1111111109
      counter_1111111111 hmac_rfc_59 hmac_rfc_1111111109 hmac_rfc_1111111111
      truncated_rfc_59 truncated_rfc_1111111109 truncated_rfc_1111111111
      divisor_8 and_then_def int_rem_def Itoa_def decimal.simps)

subsection \<open>C2: the length of the code\<close>

text \<open>
  C2. The code is said to have exactly \<open>digits\<close> characters, padded on the left with
  zeros. With the settings the program starts with (secret \<^verbatim>\<open>JBSWY3DPEHPK3PXP\<close>,
  SHA-1, 6 digits) at 1793577600 s the truncated integer is 281033545 and the code
  returned is 33545, of 5 characters; at the RFC secret, SHA-1, 8 digits and
  1111111109 s the code has 7 characters; and the formatting stage renders the value 7
  with 6 digits as the one character 7.
\<close>

theorem code_shorter_than_digits:
  "generateTOTP ''JBSWY3DPEHPK3PXP'' (hashFunc_of SHA1) 6 1793577600 = Returns (''33545'', None)
   \<and> (\<exists>code. generateTOTP ''GEZDGNBVGY3TQOJQGEZDGNBVGY3TQOJQ'' (hashFunc_of SHA1) 8 1111111109
             = Returns (code, None) \<and> length code = 7)
   \<and> and_then (int_rem 7 (divisor_loop 0 6 1)) (\<lambda>totp. Returns (Itoa totp)) = Returns ''7''"
  by (simp add: generateTOTP_def decode_default_secret counter_1793577600
      hmac_default_1793577600 truncated_default_1793577600
      decode_rfc_secret counter_1111111109 hmac_rfc_1111111109
      truncated_rfc_1111111109 divisor_8 divisor_6 and_then_def int_rem_def Itoa_def
      decimal.simps)

subsection \<open>C3: dynamic truncation\<close>

text \<open>
  C3. For every digest that SHA-1, SHA-256 or SHA-512 produces, \<open>HashTruncation\<close>
  returns, and what it returns is the number the specification describes: the offset is
  the low four bits of the last byte, the value is the big-endian word of the four bytes
  from the offset with the first masked by 0x7F. That number lies between 0 and
  \<open>2 ^ 31 - 1\<close>.
\<close>

theorem dynamic_truncation_range:
  "\<exists>v. HashTruncation (hash_Sum (hashFunc_of alg) m) = Returns v
       \<and> sint v = int (dynamic_truncation_spec (hash_Sum (hashFunc_of alg) m))
       \<and> 0 \<le> sint v \<and> sint v \<le> 2 ^ 31 - 1"
proof -
  define d where "d = hash_Sum (hashFunc_of alg) m"
  define off where "off = unat (last d AND 0x0F)"
  define n where "n = unat (d ! off AND 0x7F) * 2 ^ 24 + unat (d ! (off + 1)) * 2 ^ 16
      + unat (d ! (off + 2)) * 2 ^ 8 + unat (d ! (off + 3))"
  have "19 \<le> length d"
    using hash_Size_cases [of alg] by (auto simp add: d_def length_hash_Sum)
  then have run: "HashTruncation d = Returns (word_of_nat n)"
    by (simp add: HashTruncation_long truncation_value_nat off_def n_def)
  have small: "n < 2 ^ 31"
    unfolding n_def by (rule truncation_bound)
  have spec: "dynamic_truncation_spec d = n"
    by (simp add: dynamic_truncation_spec_def Let_def byte_and_0xFF n_def off_def and_0x0F)
  from small have "sint (word_of_nat n :: go_int) = int n"
    by (rule sint_small_nat)
  with run spec small show ?thesis
    unfolding d_def by auto
qed

subsection \<open>C4: digit counts other than 6, 7 and 8\<close>

text \<open>
  C4, as stated, fails: with 5 digits \<open>generateTOTP\<close> does not fail with an
  unsupported digit count. At the RFC secret, SHA-1 and 59 s it returns the code 87082.
\<close>

theorem digits_5_accepted:
  "generateTOTP ''GEZDGNBVGY3TQOJQGEZDGNBVGY3TQOJQ'' (hashFunc_of SHA1) 5 59
     = Returns (''87082'', None)"
  by (simp add: generateTOTP_def decode_rfc_secret counter_59 hmac_rfc_59 truncated_rfc_59
      divisor_5 and_then_def int_rem_def Itoa_def decimal.simps)

text \<open>
  C4, amended. \<open>generateTOTP\<close> has no check of the digit count. For every digit
  count outside 6, 7, 8 and below 64, every supported hash and every secret that
  decodes, it returns a code and no error: the decimal rendering of the truncated
  integer modulo \<open>10 ^ digits\<close>, the power taken in 64-bit arithmetic.
\<close>

theorem no_digit_count_check:
  assumes "digits \<notin> {6, 7, 8}" and "sint digits < 64" and "DecodeBase32 secret = Inr key"
  shows "\<exists>v. HashTruncation (GenerateHMAC (hashFunc_of alg) key (ConvertTime (int64_quo now 30)))
              = Returns v
           \<and> generateTOTP secret (hashFunc_of alg) digits now
              = Returns (Itoa (word_of_int (sint v smod sint (10 ^ nat (sint digits) :: go_int))),
                         None)"
  using generateTOTP_supported [OF assms(3) assms(2), of alg now]
  by (simp add: divisor_loop_0)

text \<open>C4, amended, at 5 digits, the RFC secret, SHA-1 and 59 s.\<close>

theorem no_digit_count_check_witness:
  "(5 :: go_int) \<notin> {6, 7, 8} \<and> sint (5 :: go_int) < 64
   \<and> (\<exists>v. HashTruncation (GenerateHMAC (hashFunc_of SHA1)
               [0x31, 0x32, 0x33, 0x34, 0x35, 0x36, 0x37, 0x38, 0x39, 0x30,
                0x31, 0x32, 0x33, 0x34, 0x35, 0x36, 0x37, 0x38, 0x39, 0x30]
               (ConvertTime (int64_quo 59 30))) = Returns v
          \<and> generateTOTP ''GEZDGNBVGY3TQOJQGEZDGNBVGY3TQOJQ'' (hashFunc_of SHA1) 5 59
             = Returns (Itoa (word_of_int (sint v smod sint (10 ^ nat (sint (5 :: go_int)) :: go_int))),
                        None))"
proof -
  have h1: "(5 :: go_int) \<notin> {6, 7, 8}"
    by simp
  have h2: "sint (5 :: go_int) < 64"
    by simp
  from no_digit_count_check [OF h1 h2 decode_rfc_secret, of SHA1 59] h1 h2 show ?thesis
    by blast
qed

subsection \<open>C5: the time counter\<close>

text \<open>
  C5. For a time \<open>t\<close> at or after the epoch, the bytes hashed are the 8-byte
  big-endian encoding of \<open>t div 30\<close>. For every 64-bit counter the encoding has 8
  bytes whose big-endian concatenation is the counter, so the encoding is injective.
\<close>

theorem time_counter_encoding:
  "(0 \<le> sint t \<longrightarrow>
      length (ConvertTime (int64_quo t 30)) = 8
      \<and> be_nat (ConvertTime (int64_quo t 30)) = nat (sint t) div 30)
   \<and> length (ConvertTime c) = 8 \<and> be_nat (ConvertTime c) = unat c \<and> inj ConvertTime"
proof -
  have "length (ConvertTime x) = 8" for x
    by (simp add: ConvertTime_bytes length_BEPutUint64)
  then show ?thesis
    by (simp add: be_nat_ConvertTime int64_quo_nonneg inj_ConvertTime)
qed

text \<open>C5 at 59 s: the counter is 1.\<close>

theorem time_counter_encoding_witness:
  "0 \<le> sint (59 :: int64)
   \<and> length (ConvertTime (int64_quo 59 30)) = 8
   \<and> be_nat (ConvertTime (int64_quo 59 30)) = 59 div 30"
  using time_counter_encoding [of 59 1] by simp

subsection \<open>C6: times before the epoch\<close>

text \<open>
  C6, as stated, fails: 30 s before the epoch \<open>generateTOTP\<close> does not fail with an
  invalid time. At the RFC secret, SHA-1 and 8 digits it returns the code 63094451,
  computed from the counter -1 encoded as eight bytes 0xFF.
\<close>

theorem negative_time_accepted:
  "generateTOTP ''GEZDGNBVGY3TQOJQGEZDGNBVGY3TQOJQ'' (hashFunc_of SHA1) 8 (- 30)
     = Returns (''63094451'', None)"
  by (simp add: generateTOTP_def decode_rfc_secret counter_minus_30 hmac_rfc_minus_30
      truncated_rfc_minus_30 divisor_8 and_then_def int_rem_def Itoa_def decimal.simps)

text \<open>
  C6, amended. \<open>generateTOTP\<close> has no check of the time. For every time before the
  epoch the counter is the quotient by 30 rounded towards zero, the bytes hashed are
  that counter modulo \<open>2 ^ 64\<close> in big-endian order, and with a supported hash, a
  secret that decodes and fewer than 64 digits a code is returned and no error.
\<close>

theorem negative_time_wraps:
  assumes "sint now < 0" and "sint digits < 64" and "DecodeBase32 secret = Inr key"
  shows "sint (int64_quo now 30) = - ((- sint now) div 30)
    \<and> int (be_nat (ConvertTime (int64_quo now 30))) = (- ((- sint now) div 30)) mod 2 ^ 64
    \<and> (\<exists>code. generateTOTP secret (hashFunc_of alg) digits now = Returns (code, None))"
  using generateTOTP_supported [OF assms(3) assms(2), of alg now] int64_quo_neg [OF assms(1)]
  by (auto simp add: be_nat_ConvertTime_sint)

text \<open>C6, amended, at -30 s: the counter is -1 and its bytes denote \<open>2 ^ 64 - 1\<close>.\<close>

theorem negative_time_wraps_witness:
  "sint (- 30 :: int64) < 0 \<and> sint (8 :: go_int) < 64
   \<and> sint (int64_quo (- 30) 30) = - 1
   \<and> int (be_nat (ConvertTime (int64_quo (- 30) 30))) = 2 ^ 64 - 1
   \<and> (\<exists>code. generateTOTP ''GEZDGNBVGY3TQOJQGEZDGNBVGY3TQOJQ'' (hashFunc_of SHA1) 8 (- 30)
               = Returns (code, None))"
proof -
  have h1: "sint (- 30 :: int64) < 0"
    by simp
  have h2: "sint (8 :: go_int) < 64"
    by simp
  from negative_time_wraps [OF h1 h2 decode_rfc_secret, of SHA1] h1 h2 show ?thesis
    by simp
qed

subsection \<open>C7: the empty secret\<close>

text \<open>
  C7, as stated, fails: the empty secret decodes to no bytes and \<open>generateTOTP\<close>
  does not fail with an empty-secret error. With SHA-1, 6 digits and 59 s it returns the
  code 812658, the HMAC being keyed with the empty key.
\<close>

theorem empty_secret_accepted:
  "generateTOTP '''' (hashFunc_of SHA1) 6 59 = Returns (''812658'', None)"
  by (simp add: generateTOTP_def decode_empty_secret counter_59 hmac_empty_59
      truncated_empty_59 divisor_6 and_then_def int_rem_def Itoa_def decimal.simps)

text \<open>
  C7, amended. \<open>generateTOTP\<close> has no check of the decoded key. For every secret
  that decodes to zero bytes, every supported hash and fewer than 64 digits, it goes on
  to the HMAC with the empty key and returns the code of that digest, and no error.
\<close>

theorem empty_key_proceeds:
  assumes "DecodeBase32 secret = Inr []" and "sint digits < 64"
  shows "\<exists>v. HashTruncation (GenerateHMAC (hashFunc_of alg) [] (ConvertTime (int64_quo now 30)))
              = Returns v
           \<and> generateTOTP secret (hashFunc_of alg) digits now
              = Returns (Itoa (word_of_int (sint v smod sint (divisor_loop 0 digits 1))), None)"
  using assms by (rule generateTOTP_supported)

text \<open>C7, amended, at the empty string, SHA-1, 6 digits and 59 s.\<close>

theorem empty_key_proceeds_witness:
  "DecodeBase32 '''' = Inr [] \<and> sint (6 :: go_int) < 64
   \<and> (\<exists>v. HashTruncation (GenerateHMAC (hashFunc_of SHA1) [] (ConvertTime (int64_quo 59 30)))
              = Returns v
           \<and> generateTOTP '''' (hashFunc_of SHA1) 6 59
              = Returns (Itoa (word_of_int (sint v smod sint (divisor_loop 0 6 1))), None))"
proof -
  have h2: "sint (6 :: go_int) < 64"
    by simp
  from empty_key_proceeds [OF decode_empty_secret h2, of SHA1 59] decode_empty_secret h2
  show ?thesis
    by blast
qed

subsection \<open>C8: digests too short for the offset\<close>

text \<open>
  C8, as stated, fails: \<open>HashTruncation\<close> has no error result and no length check.
  On the one-byte digest 0x0F, whose offset is 15, it aborts with the run-time panic
  for an index out of range.
\<close>

theorem short_digest_panics: "HashTruncation [0x0F] = Panics IndexOutOfRange"
  by (simp add: HashTruncation_def at_index_def and_then_def)

text \<open>
  C8, amended. \<open>HashTruncation\<close> panics with an index out of range exactly when
  the digest is empty or shorter than offset + 4; it never reads outside the digest.
  For a digest of at least 19 bytes the four indices are inside it and a value is
  returned.
\<close>

theorem truncation_index_bounds:
  "(HashTruncation hash = Panics IndexOutOfRange
      \<longleftrightarrow> hash = [] \<or> length hash < unat (last hash AND 0x0F) + 4)
   \<and> (19 \<le> length hash' \<longrightarrow>
        unat (last hash' AND 0x0F) + 3 < length hash' \<and> (\<exists>v. HashTruncation hash' = Returns v))"
proof -
  have "unat (last hash' AND 0x0F) < 16"
    by (simp add: and_0x0F offset_bound)
  then show ?thesis
    by (auto simp add: HashTruncation_eq [of hash] HashTruncation_long)
qed

text \<open>C8, amended, at the one-byte digest 0x0F and at a 20-byte digest.\<close>

theorem truncation_index_bounds_witness:
  "HashTruncation [0x0F] = Panics IndexOutOfRange
   \<and> 19 \<le> length [0x75, 0xA4, 0x8A, 0x19, 0xD4, 0xCB, 0xE1, 0x00, 0x64, 0x4E,
                   0x8A, 0xC1, 0x39, 0x7E, 0xEA, 0x74, 0x7A, 0x2D, 0x33, 0xAB :: byte]
   \<and> (\<exists>v. HashTruncation [0x75, 0xA4, 0x8A, 0x19, 0xD4, 0xCB, 0xE1, 0x00, 0x64, 0x4E,
                            0x8A, 0xC1, 0x39, 0x7E, 0xEA, 0x74, 0x7A, 0x2D, 0x33, 0xAB] = Returns v)"
  using truncation_index_bounds
    [of "[0x0F]" "[0x75, 0xA4, 0x8A, 0x19, 0xD4, 0xCB, 0xE1, 0x00, 0x64, 0x4E,
                 0x8A, 0xC1, 0x39, 0x7E, 0xEA, 0x74, 0x7A, 0x2D, 0x33, 0xAB]"]
  by simp

subsection \<open>C9: when generateTOTP fails\<close>

text \<open>
  C9. For every secret, every one of the three hashes, every digit count and every
  time, \<open>generateTOTP\<close> returns an error exactly when base-32 decoding of the secret
  fails, and then the error is the decoder's and the code returned is empty. No later
  stage returns an error: when the secret decodes, the outcome is a code with no error
  for a digit count below 64, and from 64 digits on, where the divisor \<open>10 ^ digits\<close>
  is 0 in 64-bit arithmetic, the run-time panic of a division by zero, which is not a
  returned error.
\<close>

theorem error_iff_decode_fails:
  "((\<exists>code err. generateTOTP secret (hashFunc_of alg) digits now = Returns (code, Some err))
      \<longleftrightarrow> (\<exists>err. DecodeBase32 secret = Inl err))
   \<and> (\<forall>err. DecodeBase32 secret = Inl err \<longrightarrow>
          generateTOTP secret (hashFunc_of alg) digits now = Returns ('''', Some err))
   \<and> (\<forall>key. DecodeBase32 secret = Inr key \<longrightarrow>
          (sint digits < 64 \<longrightarrow>
             (\<exists>code. generateTOTP secret (hashFunc_of alg) digits now = Returns (code, None)))
          \<and> (64 \<le> sint digits \<longrightarrow>
             generateTOTP secret (hashFunc_of alg) digits now = Panics DivideByZero))"
proof (cases "DecodeBase32 secret")
  case (Inl err)
  then show ?thesis
    by (simp add: generateTOTP_undecoded)
next
  case (Inr key)
  obtain v where trunc:
    "HashTruncation (GenerateHMAC (hashFunc_of alg) key (ConvertTime (int64_quo now 30))) = Returns v"
    using HashTruncation_supported by blast
  show ?thesis
  proof (cases "sint digits < 64")
    case True
    from generateTOTP_decoded [OF Inr trunc True] Inr True show ?thesis
      by simp
  next
    case False
    then have "64 \<le> sint digits"
      by simp
    from generateTOTP_overflow [OF Inr trunc this] Inr False show ?thesis
      by simp
  qed
qed

text \<open>
  C9 at the secret \<^verbatim>\<open>1\<close>, which is not base-32, with 64 digits: the decoder's
  error and the empty code; at the RFC secret with 6 digits: a code and no error; at the
  RFC secret with 64 digits: the panic.
\<close>

theorem error_iff_decode_fails_witness:
  "generateTOTP ''1'' (hashFunc_of SHA256) 64 59 = Returns ('''', Some (CorruptInputError 0))
   \<and> (\<exists>code. generateTOTP ''GEZDGNBVGY3TQOJQGEZDGNBVGY3TQOJQ'' (hashFunc_of SHA512) 6 59
               = Returns (code, None))
   \<and> generateTOTP ''GEZDGNBVGY3TQOJQGEZDGNBVGY3TQOJQ'' (hashFunc_of SHA1) 64 59
       = Panics DivideByZero"
  using error_iff_decode_fails [of "''1''" SHA256 64 59]
    error_iff_decode_fails [of "''GEZDGNBVGY3TQOJQGEZDGNBVGY3TQOJQ''" SHA512 6 59]
    error_iff_decode_fails [of "''GEZDGNBVGY3TQOJQGEZDGNBVGY3TQOJQ''" SHA1 64 59]
    decode_bad_secret decode_rfc_secret
  by simp

subsection \<open>C10: the bytes that truncation reads\<close>

text \<open>
  C10. Two digests of the same length, at least offset + 4, that have the same last
  byte and the same four bytes from the offset give the same result: no other byte of
  the digest matters.
\<close>

theorem truncation_reads_five_bytes:
  assumes "length h1 = length h2"
    and "last h1 = last h2"
    and "unat (last h1 AND 0x0F) + 4 \<le> length h1"
    and "h1 ! unat (last h1 AND 0x0F) = h2 ! unat (last h1 AND 0x0F)"
    and "h1 ! (unat (last h1 AND 0x0F) + 1) = h2 ! (unat (last h1 AND 0x0F) + 1)"
    and "h1 ! (unat (last h1 AND 0x0F) + 2) = h2 ! (unat (last h1 AND 0x0F) + 2)"
    and "h1 ! (unat (last h1 AND 0x0F) + 3) = h2 ! (unat (last h1 AND 0x0F) + 3)"
  shows "HashTruncation h1 = HashTruncation h2"
proof -
  from assms(3) have "h1 \<noteq> []"
    by auto
  with assms(1) have "h2 \<noteq> []"
    by auto
  with \<open>h1 \<noteq> []\<close> assms show ?thesis
    by (simp add: HashTruncation_eq)
qed

text \<open>
  C10 at two 20-byte digests with offset 11 that agree on bytes 11 to 14 and on the
  last byte and differ everywhere else.
\<close>

theorem truncation_reads_five_bytes_witness:
  "HashTruncation [0x75, 0xA4, 0x8A, 0x19, 0xD4, 0xCB, 0xE1, 0x00, 0x64, 0x4E,
                   0x8A, 0xC1, 0x39, 0x7E, 0xEA, 0x74, 0x7A, 0x2D, 0x33, 0xAB]
   = HashTruncation [0x00, 0x01, 0x02, 0x03, 0x04, 0x05, 0x06, 0x07, 0x08, 0x09,
                     0x0A, 0xC1, 0x39, 0x7E, 0xEA, 0x0F, 0x10, 0x11, 0x12, 0xAB]"
  by (rule truncation_reads_five_bytes) simp_all

end
